theory Spec2Isabelle
  imports Main "HOL-Library.Product_Lexorder" "HOL-Library.Multiset"
begin

section \<open>The study scheduler of \<^verbatim>\<open>src/public/index.js\<close>\<close>

text \<open>
  The file holds two programs: the browser script (function \<^verbatim>\<open>auth\<close>) and the Express
  server (the middleware \<^verbatim>\<open>verifyToken\<close> and the route handlers). The server talks to
  four collaborators that are not part of the repository: PostgreSQL through \<^verbatim>\<open>pg\<close>,
  \<^verbatim>\<open>jsonwebtoken\<close>, \<^verbatim>\<open>bcrypt\<close> and the generative model. Each handler is embedded as a
  function of an explicit database state; what the collaborators decide on their own
  (the clock, the secret, which query is rejected, what the model answers, what
  \<^verbatim>\<open>JSON.parse\<close> makes of a text) is read from a record \<open>env\<close>, so that a theorem
  about a handler holds for whatever they do.
\<close>

subsection \<open>JavaScript values\<close>

text \<open>
  The result of \<^verbatim>\<open>JSON.parse\<close>. Numbers are kept as integers: the server only reads
  properties of these values and iterates over them. An object is its list of members
  in source order.
\<close>

datatype json =
    JNull
  | JBool bool
  | JNum int
  | JStr string
  | JArr "json list"
  | JObj "(string \<times> json) list"

text \<open>What a \<^verbatim>\<open>throw\<close> or a rejected promise carries.\<close>

datatype js_error =
    SyntaxError       \<comment> \<open>\<^verbatim>\<open>JSON.parse\<close> on a text that is not JSON\<close>
  | TypeError         \<comment> \<open>property read on \<^verbatim>\<open>null\<close>, \<^verbatim>\<open>for...of\<close> over a non-iterable\<close>
  | DbError           \<comment> \<open>a rejected \<^verbatim>\<open>query\<close>\<close>
  | ConnectError      \<comment> \<open>a rejected \<^verbatim>\<open>db.connect()\<close>\<close>
  | GenError          \<comment> \<open>a rejected \<^verbatim>\<open>generateContent\<close> or a throwing \<^verbatim>\<open>response.text()\<close>\<close>
  | SignError         \<comment> \<open>\<^verbatim>\<open>jwt.sign\<close> without a secret\<close>

text \<open>
  \<^verbatim>\<open>item.key\<close>: reading a property of \<^verbatim>\<open>null\<close> throws; of an object it is the member of
  that name (the last one when the text repeated the name) or \<^verbatim>\<open>undefined\<close>, here
  \<open>None\<close>; a boolean, a number, a string or an array has no property of the four
  names the server reads.
\<close>

fun get_prop :: "json \<Rightarrow> string \<Rightarrow> js_error + json option" where
  "get_prop JNull k = Inl TypeError"
| "get_prop (JObj ms) k = Inr (map_of (rev ms) k)"
| "get_prop v k = Inr None"

text \<open>
  \<^verbatim>\<open>scheduleItems.length\<close> in the log line: only \<^verbatim>\<open>null\<close> throws, every other value
  answers (possibly \<^verbatim>\<open>undefined\<close>, which the template prints).
\<close>

fun js_length :: "json \<Rightarrow> js_error + unit" where
  "js_length JNull = Inl TypeError"
| "js_length v = Inr ()"

text \<open>
  \<^verbatim>\<open>for (const item of v)\<close>: an array yields its entries, a string its characters as
  one-character strings, anything else is not iterable.
\<close>

fun js_iterate :: "json \<Rightarrow> js_error + json list" where
  "js_iterate (JArr xs) = Inr xs"
| "js_iterate (JStr s) = Inr (map (\<lambda>c. JStr [c]) s)"
| "js_iterate v = Inl TypeError"

text \<open>\<^verbatim>\<open>!x\<close> for a body field or a cookie: \<^verbatim>\<open>undefined\<close> and the empty string are falsy.\<close>

definition falsy :: "string option \<Rightarrow> bool" where
  "falsy x = (case x of None \<Rightarrow> True | Some s \<Rightarrow> s = [])"

text \<open>A value inside a template literal: \<^verbatim>\<open>undefined\<close> prints as that word.\<close>

definition js_str :: "string option \<Rightarrow> string" where
  "js_str x = (case x of None \<Rightarrow> ''undefined'' | Some s \<Rightarrow> s)"

subsection \<open>Session tokens (\<^verbatim>\<open>jsonwebtoken\<close>)\<close>

text \<open>
  A cookie value is either a well-formed token, written here as the key that signed it
  and the claims it carries, or some other string. \<^verbatim>\<open>jwt.sign(payload, secret,
  {expiresIn: '1d'})\<close> stamps the issue time and an expiry 86400 seconds later and
  throws when the secret is missing or empty; \<^verbatim>\<open>jwt.verify\<close> fails when the secret is
  missing, the string is no token, the signature is by another key, or the clock has
  reached the expiry.
\<close>

record jwt_claims =
  jid :: nat
  jname :: string
  iat :: nat
  exp :: "nat option"

datatype token =
    Signed string jwt_claims
  | Opaque string

datatype jwt_error = JsonWebTokenError | TokenExpiredError

definition jwt_sign :: "nat \<Rightarrow> string \<Rightarrow> string option \<Rightarrow> nat \<Rightarrow> js_error + token" where
  "jwt_sign uid uname secret t =
     (case secret of
        None \<Rightarrow> Inl SignError
      | Some k \<Rightarrow>
          if k = [] then Inl SignError
          else Inr (Signed k \<lparr>jid = uid, jname = uname, iat = t, exp = Some (t + 86400)\<rparr>))"

definition jwt_verify :: "token \<Rightarrow> string option \<Rightarrow> nat \<Rightarrow> jwt_error + jwt_claims" where
  "jwt_verify tok secret t =
     (case secret of
        None \<Rightarrow> Inl JsonWebTokenError
      | Some k \<Rightarrow>
          if k = [] then Inl JsonWebTokenError
          else (case tok of
                  Opaque s \<Rightarrow> Inl JsonWebTokenError
                | Signed k' c \<Rightarrow>
                    if k' \<noteq> k then Inl JsonWebTokenError
                    else (case exp c of
                            None \<Rightarrow> Inr c
                          | Some e \<Rightarrow> if e \<le> t then Inl TokenExpiredError else Inr c)))"

subsection \<open>Password hashes (\<^verbatim>\<open>bcrypt\<close>)\<close>

text \<open>
  The \<^verbatim>\<open>password\<close> column holds either a bcrypt digest, written as the cost, the salt
  and the password it was computed from, or some other text. \<^verbatim>\<open>bcrypt.compare\<close> accepts
  exactly the password a digest was computed from.
\<close>

datatype pwhash =
    Bcrypt nat string string
  | NotAHash string

definition bcrypt_hash :: "string \<Rightarrow> nat \<Rightarrow> string \<Rightarrow> pwhash" where
  "bcrypt_hash pw cost salt = Bcrypt cost salt pw"

fun bcrypt_compare :: "string \<Rightarrow> pwhash \<Rightarrow> bool" where
  "bcrypt_compare pw (Bcrypt cost salt pw') = (pw = pw')"
| "bcrypt_compare pw (NotAHash s) = False"

subsection \<open>The database\<close>

text \<open>
  The three tables the queries name. The schema is not in the repository: a schedule
  column holds the parameter the server passed (\<open>None\<close> is SQL \<^verbatim>\<open>NULL\<close>),
  \<^verbatim>\<open>daily_focus_hours\<close> holds the submitted text, and \<^verbatim>\<open>users.id\<close> is drawn from a
  sequence.
\<close>

record user_row =
  u_id :: nat
  u_name :: string
  u_email :: string
  u_password :: pwhash
  u_daily_focus_hours :: "string option"

record schedule_row =
  s_day_of_week :: "json option"
  s_start_time :: "json option"
  s_end_time :: "json option"
  s_subject :: "json option"
  s_user_id :: nat

record streak_row =
  k_user_id :: nat
  k_streak_count :: int
  k_longest_streak :: int

record tables =
  users :: "user_row list"
  schedule_items :: "schedule_row list"
  user_streaks :: "streak_row list"
  users_id_seq :: nat

text \<open>The statements the server sends, each with its parameters.\<close>

datatype query =
    Begin
  | Commit
  | Rollback
  | DeleteSchedule nat
  | InsertSchedule "json option" "json option" "json option" "json option" nat
  | UpdateFocus "string option" nat
  | SelectUserById nat
  | SelectSchedule nat
  | SelectStreak nat
  | SelectUserByEmail string
  | InsertUser string string pwhash

datatype rows =
    NoRows
  | UserRows "user_row list"
  | ScheduleRows "schedule_row list"
  | StreakRows "streak_row list"

text \<open>\<^verbatim>\<open>pg\<close> sends \<^verbatim>\<open>undefined\<close> and \<^verbatim>\<open>null\<close> alike as \<^verbatim>\<open>NULL\<close>.\<close>

fun sql_param :: "json option \<Rightarrow> json option" where
  "sql_param None = None"
| "sql_param (Some JNull) = None"
| "sql_param (Some v) = Some v"

text \<open>
  What a data statement does to the tables. \<^verbatim>\<open>SelectSchedule\<close> here returns the
  user's rows unordered; the ordering of the dashboard query is applied by the handler
  below.
\<close>

fun apply_query :: "query \<Rightarrow> tables \<Rightarrow> rows \<times> tables" where
  "apply_query (DeleteSchedule uid) t =
     (NoRows, t\<lparr>schedule_items := filter (\<lambda>r. s_user_id r \<noteq> uid) (schedule_items t)\<rparr>)"
| "apply_query (InsertSchedule d s e sub uid) t =
     (NoRows, t\<lparr>schedule_items := schedule_items t @
        [\<lparr>s_day_of_week = sql_param d, s_start_time = sql_param s, s_end_time = sql_param e,
          s_subject = sql_param sub, s_user_id = uid\<rparr>]\<rparr>)"
| "apply_query (UpdateFocus h uid) t =
     (NoRows, t\<lparr>users := map (\<lambda>u. if u_id u = uid then u\<lparr>u_daily_focus_hours := h\<rparr> else u)
        (users t)\<rparr>)"
| "apply_query (SelectUserById uid) t = (UserRows (filter (\<lambda>u. u_id u = uid) (users t)), t)"
| "apply_query (SelectSchedule uid) t =
     (ScheduleRows (filter (\<lambda>r. s_user_id r = uid) (schedule_items t)), t)"
| "apply_query (SelectStreak uid) t =
     (StreakRows (filter (\<lambda>k. k_user_id k = uid) (user_streaks t)), t)"
| "apply_query (SelectUserByEmail em) t = (UserRows (filter (\<lambda>u. u_email u = em) (users t)), t)"
| "apply_query (InsertUser nm em pw) t =
     (UserRows [\<lparr>u_id = users_id_seq t, u_name = nm, u_email = em, u_password = pw,
                 u_daily_focus_hours = None\<rparr>],
      t\<lparr>users := users t @
           [\<lparr>u_id = users_id_seq t, u_name = nm, u_email = em, u_password = pw,
             u_daily_focus_hours = None\<rparr>],
        users_id_seq := Suc (users_id_seq t)\<rparr>)"
| "apply_query q t = (NoRows, t)"

text \<open>
  The state of the database as one request sees it: the committed tables, the
  working copy of the transaction open on the checked-out client (if any), every
  statement received so far, and how many clients the pool has handed out and taken
  back.
\<close>

record db =
  committed :: tables
  txn :: "tables option"
  qlog :: "query list"
  acquired :: nat
  released :: nat

text \<open>
  What the collaborators decide. \<open>fails n\<close> says that the statement with sequence
  number \<open>n\<close> (its position in \<open>qlog\<close>) is rejected; \<open>generate\<close> is the model's answer
  to a prompt, \<open>None\<close> when the call fails.
\<close>

record env =
  now :: nat
  jwt_secret :: "string option"
  fails :: "nat \<Rightarrow> bool"
  connect_fails :: bool
  generate :: "string \<Rightarrow> string option"
  json_parse :: "string \<Rightarrow> json option"
  bcrypt_salt :: string

text \<open>
  A computation that may throw and that changes the database: the state it leaves
  is returned on both outcomes, since a \<^verbatim>\<open>throw\<close> undoes nothing.
\<close>

type_synonym 'a io = "db \<Rightarrow> (js_error + 'a) \<times> db"

definition ret :: "'a \<Rightarrow> 'a io" where
  "ret v = (\<lambda>d. (Inr v, d))"

definition throw :: "js_error \<Rightarrow> 'a io" where
  "throw e = (\<lambda>d. (Inl e, d))"

definition bind :: "'a io \<Rightarrow> ('a \<Rightarrow> 'b io) \<Rightarrow> 'b io" where
  "bind m f = (\<lambda>d. case m d of (Inl e, d') \<Rightarrow> (Inl e, d') | (Inr v, d') \<Rightarrow> f v d')"

text \<open>
  \<^verbatim>\<open>try { body } catch (e) { handler } finally { fin }\<close>: the handler runs when the body
  throws, \<open>fin\<close> runs in every case, and what the handler throws is thrown on after
  \<open>fin\<close>.
\<close>

definition try_catch_finally :: "'a io \<Rightarrow> (js_error \<Rightarrow> 'a io) \<Rightarrow> unit io \<Rightarrow> 'a io" where
  "try_catch_finally body handler fin =
     (\<lambda>d. case body d of (r1, d1) \<Rightarrow>
        (case (case r1 of Inl e \<Rightarrow> handler e d1 | Inr v \<Rightarrow> (Inr v, d1)) of (r2, d2) \<Rightarrow>
           (case fin d2 of (r3, d3) \<Rightarrow>
              (case r3 of Inl e \<Rightarrow> (Inl e, d3) | Inr u \<Rightarrow> (r2, d3)))))"

definition try_catch :: "'a io \<Rightarrow> (js_error \<Rightarrow> 'a io) \<Rightarrow> 'a io" where
  "try_catch body handler =
     (\<lambda>d. case body d of (Inl e, d1) \<Rightarrow> handler e d1 | (Inr v, d1) \<Rightarrow> (Inr v, d1))"

text \<open>
  \<^verbatim>\<open>client.query\<close>: the statement is logged; if rejected it changes nothing. \<^verbatim>\<open>BEGIN\<close>
  opens a working copy (and only warns inside a transaction), \<^verbatim>\<open>COMMIT\<close> makes the
  working copy the committed tables, \<^verbatim>\<open>ROLLBACK\<close> drops it (and only warns outside a
  transaction); a data statement works on the working copy, or on the committed
  tables when no transaction is open.
\<close>

definition client_query :: "env \<Rightarrow> query \<Rightarrow> rows io" where
  "client_query e q =
     (\<lambda>d. let d1 = d\<lparr>qlog := qlog d @ [q]\<rparr> in
        if fails e (length (qlog d)) then (Inl DbError, d1)
        else (case q of
                Begin \<Rightarrow>
                  (case txn d of
                     None \<Rightarrow> (Inr NoRows, d1\<lparr>txn := Some (committed d)\<rparr>)
                   | Some t \<Rightarrow> (Inr NoRows, d1))
              | Commit \<Rightarrow>
                  (case txn d of
                     None \<Rightarrow> (Inr NoRows, d1)
                   | Some t \<Rightarrow> (Inr NoRows, d1\<lparr>committed := t, txn := None\<rparr>))
              | Rollback \<Rightarrow> (Inr NoRows, d1\<lparr>txn := None\<rparr>)
              | _ \<Rightarrow>
                  (case txn d of
                     None \<Rightarrow>
                       (case apply_query q (committed d) of
                          (r, t') \<Rightarrow> (Inr r, d1\<lparr>committed := t'\<rparr>))
                   | Some t \<Rightarrow>
                       (case apply_query q t of
                          (r, t') \<Rightarrow> (Inr r, d1\<lparr>txn := Some t'\<rparr>)))))"

text \<open>\<^verbatim>\<open>db.query\<close> on the pool: one statement on a connection of its own, committed at once.\<close>

definition pool_query :: "env \<Rightarrow> query \<Rightarrow> rows io" where
  "pool_query e q =
     (\<lambda>d. let d1 = d\<lparr>qlog := qlog d @ [q]\<rparr> in
        if fails e (length (qlog d)) then (Inl DbError, d1)
        else (case apply_query q (committed d) of
                (r, t') \<Rightarrow> (Inr r, d1\<lparr>committed := t'\<rparr>)))"

definition pool_connect :: "env \<Rightarrow> unit io" where
  "pool_connect e =
     (\<lambda>d. if connect_fails e then (Inl ConnectError, d)
          else (Inr (), d\<lparr>acquired := Suc (acquired d)\<rparr>))"

definition client_release :: "unit io" where
  "client_release = (\<lambda>d. (Inr (), d\<lparr>released := Suc (released d)\<rparr>))"

subsection \<open>Requests and responses\<close>

text \<open>
  A request carries the \<^verbatim>\<open>token\<close> cookie, if any, and the fields of its url-encoded
  body (a JSON body is not parsed by this server and leaves every field
  \<^verbatim>\<open>undefined\<close>). A response is the cookie operations performed followed by the one
  reply sent; the cookie attributes are not modelled.
\<close>

record request =
  cookie_token :: "token option"
  body :: "string \<Rightarrow> string option"

datatype cookie_op =
    SetCookie string token
  | ClearCookie string

record dashboard =
  v_name :: string
  v_scheduleItems :: "schedule_row list"
  v_focusedTime :: string
  v_streak_count :: int
  v_longest_streak :: int
  v_insight :: string

datatype reply =
    Redirect string                \<comment> \<open>\<^verbatim>\<open>res.redirect(path)\<close>\<close>
  | RenderAuth "string option"     \<comment> \<open>\<^verbatim>\<open>res.render('auth.ejs', {error})\<close>\<close>
  | RenderForm                     \<comment> \<open>\<^verbatim>\<open>res.render('form.ejs')\<close>\<close>
  | RenderIndex dashboard          \<comment> \<open>\<^verbatim>\<open>res.render('index.ejs', {...})\<close>\<close>
  | Send nat string                \<comment> \<open>\<^verbatim>\<open>res.status(n).send(text)\<close>\<close>
  | Json json                      \<comment> \<open>\<^verbatim>\<open>res.json(value)\<close>, which no handler of this server calls\<close>

record response =
  cookies :: "cookie_op list"
  reply :: reply

definition page :: "reply \<Rightarrow> response" where
  "page r = \<lparr>cookies = [], reply = r\<rparr>"

subsection \<open>\<^verbatim>\<open>verifyToken\<close>\<close>

text \<open>\<^verbatim>\<open>!token\<close>: no cookie, or a cookie holding the empty string.\<close>

definition no_token :: "token option \<Rightarrow> bool" where
  "no_token c = (case c of None \<Rightarrow> True | Some (Opaque s) \<Rightarrow> s = [] | Some (Signed k cl) \<Rightarrow> False)"

text \<open>
  The middleware either answers itself (\<open>Inl\<close>) or sets \<^verbatim>\<open>req.user\<close> to the decoded claims
  and calls \<^verbatim>\<open>next()\<close> (\<open>Inr\<close>).
\<close>

definition verifyToken :: "env \<Rightarrow> request \<Rightarrow> response + jwt_claims" where
  "verifyToken e req =
     (if no_token (cookie_token req) then Inl (page (Redirect ''/''))
      else (case cookie_token req of
              None \<Rightarrow> Inl (page (Redirect ''/''))
            | Some tok \<Rightarrow>
                (case jwt_verify tok (jwt_secret e) (now e) of
                   Inl err \<Rightarrow> Inl \<lparr>cookies = [ClearCookie ''token''], reply = Redirect ''/''\<rparr>
                 | Inr decoded \<Rightarrow> Inr decoded)))"

subsection \<open>GET routes\<close>

definition get_root :: "response io" where
  "get_root = ret (page (RenderAuth None))"

definition get_form :: "env \<Rightarrow> request \<Rightarrow> response io" where
  "get_form e req =
     (case verifyToken e req of
        Inl r \<Rightarrow> ret r
      | Inr user \<Rightarrow> ret (page RenderForm))"

definition get_logout :: "response io" where
  "get_logout = ret \<lparr>cookies = [ClearCookie ''token''], reply = Redirect ''/''\<rparr>"

text \<open>The \<^verbatim>\<open>CASE day_of_week ... END\<close> of the dashboard query.\<close>

definition day_rank :: "json option \<Rightarrow> nat" where
  "day_rank d =
     (if d = Some (JStr ''Monday'') then 1
      else if d = Some (JStr ''Tuesday'') then 2
      else if d = Some (JStr ''Wednesday'') then 3
      else if d = Some (JStr ''Thursday'') then 4
      else if d = Some (JStr ''Friday'') then 5
      else if d = Some (JStr ''Saturday'') then 6
      else 7)"

text \<open>
  \<^verbatim>\<open>ORDER BY CASE ... END, start_time\<close>. How the database compares two values of the
  \<^verbatim>\<open>start_time\<close> column depends on the column's type, which the repository does not
  declare: \<open>time_key\<close> maps a stored value to its place in that order.
\<close>

definition order_schedule ::
  "(json option \<Rightarrow> 'k::linorder) \<Rightarrow> schedule_row list \<Rightarrow> schedule_row list" where
  "order_schedule time_key rs =
     sort_key (\<lambda>r. (day_rank (s_day_of_week r), time_key (s_start_time r))) rs"

fun user_rows :: "rows \<Rightarrow> user_row list" where
  "user_rows (UserRows us) = us"
| "user_rows r = []"

fun schedule_rows :: "rows \<Rightarrow> schedule_row list" where
  "schedule_rows (ScheduleRows rs) = rs"
| "schedule_rows r = []"

fun streak_rows :: "rows \<Rightarrow> streak_row list" where
  "streak_rows (StreakRows ks) = ks"
| "streak_rows r = []"

text \<open>
  The three promises are created before any is awaited, so all three statements are
  sent; \<^verbatim>\<open>Promise.all\<close> rejects when one of them does.
\<close>

definition dashboard_queries :: "env \<Rightarrow> nat \<Rightarrow> (rows \<times> rows \<times> rows) io" where
  "dashboard_queries e uid =
     (\<lambda>d. case pool_query e (SelectUserById uid) d of (r1, d1) \<Rightarrow>
        (case pool_query e (SelectSchedule uid) d1 of (r2, d2) \<Rightarrow>
           (case pool_query e (SelectStreak uid) d2 of (r3, d3) \<Rightarrow>
              (case (r1, r2, r3) of
                 (Inr a, Inr b, Inr c) \<Rightarrow> (Inr (a, b, c), d3)
               | _ \<Rightarrow> (Inl DbError, d3)))))"

definition dashboard_view ::
  "(json option \<Rightarrow> 'k::linorder) \<Rightarrow> user_row \<Rightarrow> rows \<Rightarrow> rows \<Rightarrow> dashboard" where
  "dashboard_view time_key userData scheduleResult streakResult =
     \<lparr>v_name = u_name userData,
      v_scheduleItems = order_schedule time_key (schedule_rows scheduleResult),
      v_focusedTime =
        (if falsy (u_daily_focus_hours userData) then ''N/A''
         else js_str (u_daily_focus_hours userData) @ '' Hours/Day''),
      v_streak_count =
        (case streak_rows streakResult of [] \<Rightarrow> 0 | k # ks \<Rightarrow> k_streak_count k),
      v_longest_streak =
        (case streak_rows streakResult of [] \<Rightarrow> 0 | k # ks \<Rightarrow> k_longest_streak k),
      v_insight = ''Planning is the first step to success!''\<rparr>"

definition get_dashboard ::
  "env \<Rightarrow> (json option \<Rightarrow> 'k::linorder) \<Rightarrow> request \<Rightarrow> response io" where
  "get_dashboard e time_key req =
     (case verifyToken e req of
        Inl r \<Rightarrow> ret r
      | Inr user \<Rightarrow>
          try_catch
            (bind (dashboard_queries e (jid user)) (\<lambda>(userResult, scheduleResult, streakResult).
               (case user_rows userResult of
                  [] \<Rightarrow> ret (page (Redirect ''/''))
                | userData # others \<Rightarrow>
                    ret (page (RenderIndex
                      (dashboard_view time_key userData scheduleResult streakResult))))))
            (\<lambda>err. ret (page (Send 500 ''Error loading dashboard.''))))"

subsection \<open>POST /form\<close>

text \<open>The prompt: a template literal over seven of the eight destructured body fields.\<close>

definition form_prompt :: "(string \<Rightarrow> string option) \<Rightarrow> string" where
  \<open>form_prompt b =
     ''Based on these study preferences, create a ('' @ js_str (b ''deadline'') @
     '')days schedule. The user has provided subjects with priorities. Your job is to schedule them. Preferences: Goal('' @
     js_str (b ''goal'') @ ''), Subjects('' @ js_str (b ''subjects'') @
     ''), Methods('' @ js_str (b ''methods'') @ ''), Deadline('' @ js_str (b ''deadline'') @
     ''), Daily Time('' @ js_str (b ''dailytime'') @ '' hours), Slots('' @ js_str (b ''slots'') @
     ''), Remarks('' @ js_str (b ''remarks'') @
     ''). IMPORTANT: Respond with ONLY a valid JSON array of objects. Each object must have these keys: "dayOfWeek", "startTime", "endTime", "subject". The "subject" should come from user input. Example: [{"dayOfWeek": "Monday", "startTime": "09:00", "endTime": "11:00", "subject": "Math: Calculus Chapter 3"}]''\<close>

text \<open>
  \<^verbatim>\<open>s.replace(/pat/g, '')\<close> for a literal pattern: every occurrence found scanning from
  the left is removed, and the scan goes on behind it.
\<close>

function remove_all :: "string \<Rightarrow> string \<Rightarrow> string" where
  "remove_all pat s =
     (if s = [] then []
      else if pat \<noteq> [] \<and> take (length pat) s = pat then remove_all pat (drop (length pat) s)
      else hd s # remove_all pat (tl s))"
  by pat_completeness auto
termination
  by (relation "measure (\<lambda>(pat, s). length s)") (auto simp: neq_Nil_conv)

text \<open>
  \<^verbatim>\<open>trim()\<close>: white space and line terminators are removed at both ends. A string is
  its UTF-8 bytes here, so each of the twenty-five code points that ECMAScript counts
  as white space or line terminator is written as its byte sequence (U+0009 to
  U+000D, U+0020, U+00A0, U+1680, U+2000 to U+200A, U+2028, U+2029, U+202F, U+205F,
  U+3000 and U+FEFF).
\<close>

definition white_space :: "string list" where
  "white_space =
     [[CHR 0x09], [CHR 0x0A], [CHR 0x0B], [CHR 0x0C], [CHR 0x0D], [CHR 0x20],
      [CHR 0xC2, CHR 0xA0], [CHR 0xE1, CHR 0x9A, CHR 0x80],
      [CHR 0xE2, CHR 0x80, CHR 0x80], [CHR 0xE2, CHR 0x80, CHR 0x81],
      [CHR 0xE2, CHR 0x80, CHR 0x82], [CHR 0xE2, CHR 0x80, CHR 0x83],
      [CHR 0xE2, CHR 0x80, CHR 0x84], [CHR 0xE2, CHR 0x80, CHR 0x85],
      [CHR 0xE2, CHR 0x80, CHR 0x86], [CHR 0xE2, CHR 0x80, CHR 0x87],
      [CHR 0xE2, CHR 0x80, CHR 0x88], [CHR 0xE2, CHR 0x80, CHR 0x89],
      [CHR 0xE2, CHR 0x80, CHR 0x8A], [CHR 0xE2, CHR 0x80, CHR 0xA8],
      [CHR 0xE2, CHR 0x80, CHR 0xA9], [CHR 0xE2, CHR 0x80, CHR 0xAF],
      [CHR 0xE2, CHR 0x81, CHR 0x9F], [CHR 0xE3, CHR 0x80, CHR 0x80],
      [CHR 0xEF, CHR 0xBB, CHR 0xBF]]"

function drop_leading :: "string list \<Rightarrow> string \<Rightarrow> string" where
  "drop_leading ws s =
     (case find (\<lambda>w. w \<noteq> [] \<and> take (length w) s = w) ws of
        None \<Rightarrow> s
      | Some w \<Rightarrow> drop_leading ws (drop (length w) s))"
  by pat_completeness auto
termination
proof (relation "measure (\<lambda>(ws, s). length s)")
  show "wf (measure (\<lambda>(ws, s). length s))" by simp
next
  fix ws :: "string list" and s w :: string
  assume "find (\<lambda>w. w \<noteq> [] \<and> take (length w) s = w) ws = Some w"
  then have w: "w \<noteq> []" "take (length w) s = w" by (auto simp: find_Some_iff)
  then have "s \<noteq> []" by auto
  with w(1) have "length (drop (length w) s) < length s" by simp
  then show "((ws, drop (length w) s), (ws, s)) \<in> measure (\<lambda>(ws, s). length s)" by simp
qed

definition trim :: "string \<Rightarrow> string" where
  "trim s = rev (drop_leading (map rev white_space) (rev (drop_leading white_space s)))"

definition clean :: "string \<Rightarrow> string" where
  "clean text = trim (remove_all ''```'' (remove_all ''```json'' text))"

text \<open>
  One turn of the loop: the four property reads that build the parameter array, then
  the \<^verbatim>\<open>INSERT\<close>.
\<close>

definition insert_item :: "env \<Rightarrow> nat \<Rightarrow> json \<Rightarrow> rows io" where
  "insert_item e uid item =
     (case get_prop item ''dayOfWeek'' of
        Inl err \<Rightarrow> throw err
      | Inr d \<Rightarrow>
     (case get_prop item ''startTime'' of
        Inl err \<Rightarrow> throw err
      | Inr s \<Rightarrow>
     (case get_prop item ''endTime'' of
        Inl err \<Rightarrow> throw err
      | Inr en \<Rightarrow>
     (case get_prop item ''subject'' of
        Inl err \<Rightarrow> throw err
      | Inr sub \<Rightarrow> client_query e (InsertSchedule d s en sub uid)))))"

fun insert_items :: "env \<Rightarrow> nat \<Rightarrow> json list \<Rightarrow> unit io" where
  "insert_items e uid [] = ret ()"
| "insert_items e uid (item # rest) =
     bind (insert_item e uid item) (\<lambda>r. insert_items e uid rest)"

text \<open>The statements between \<^verbatim>\<open>BEGIN\<close> and \<^verbatim>\<open>COMMIT\<close>, for the parsed value \<open>v\<close>.\<close>

definition form_transaction :: "env \<Rightarrow> nat \<Rightarrow> json \<Rightarrow> string option \<Rightarrow> unit io" where
  "form_transaction e uid v dailytime =
     bind (client_query e Begin) (\<lambda>r1.
     bind (client_query e (DeleteSchedule uid)) (\<lambda>r2.
     (case js_iterate v of
        Inl err \<Rightarrow> throw err
      | Inr items \<Rightarrow>
          bind (insert_items e uid items) (\<lambda>u.
          bind (client_query e (UpdateFocus dailytime uid)) (\<lambda>r3.
          bind (client_query e Commit) (\<lambda>r4. ret ()))))))"

text \<open>The body of the \<^verbatim>\<open>try\<close> block.\<close>

definition form_try :: "env \<Rightarrow> jwt_claims \<Rightarrow> request \<Rightarrow> response io" where
  "form_try e user req =
     (case generate e (form_prompt (body req)) of
        None \<Rightarrow> throw GenError
      | Some text \<Rightarrow>
          (case json_parse e (clean text) of
             None \<Rightarrow> throw SyntaxError
           | Some scheduleItems \<Rightarrow>
               (case js_length scheduleItems of
                  Inl err \<Rightarrow> throw err
                | Inr u \<Rightarrow>
                    bind (form_transaction e (jid user) scheduleItems (body req ''dailytime''))
                      (\<lambda>u. ret (page (Redirect ''/dashboard''))))))"

definition form_catch :: "env \<Rightarrow> js_error \<Rightarrow> response io" where
  "form_catch e err =
     bind (client_query e Rollback)
       (\<lambda>r. ret (page (Send 500 ''An error occurred while generating the schedule.'')))"

text \<open>
  The handler behind \<^verbatim>\<open>verifyToken\<close>. \<^verbatim>\<open>db.connect()\<close> is awaited before the \<^verbatim>\<open>try\<close>, so
  its rejection leaves the handler at once. An \<open>Inl\<close> result is an exception that
  escapes the handler: no reply is sent.
\<close>

definition post_form :: "env \<Rightarrow> request \<Rightarrow> response io" where
  "post_form e req =
     (case verifyToken e req of
        Inl r \<Rightarrow> ret r
      | Inr user \<Rightarrow>
          bind (pool_connect e) (\<lambda>client.
            try_catch_finally (form_try e user req) (form_catch e) client_release))"

subsection \<open>POST /register and POST /login\<close>

definition register_try :: "env \<Rightarrow> string \<Rightarrow> string \<Rightarrow> string \<Rightarrow> response io" where
  "register_try e name email password =
     bind (pool_query e (SelectUserByEmail email)) (\<lambda>check.
       if user_rows check \<noteq> []
       then ret (page (RenderAuth (Some ''User with this email already exists.'')))
       else bind (pool_query e (InsertUser name email (bcrypt_hash password 10 (bcrypt_salt e))))
         (\<lambda>result.
            (case user_rows result of
               [] \<Rightarrow> throw TypeError
             | newUser # others \<Rightarrow>
                 (case jwt_sign (u_id newUser) (u_name newUser) (jwt_secret e) (now e) of
                    Inl err \<Rightarrow> throw err
                  | Inr token \<Rightarrow>
                      ret \<lparr>cookies = [SetCookie ''token'' token], reply = Redirect ''/form''\<rparr>))))"

definition post_register :: "env \<Rightarrow> request \<Rightarrow> response io" where
  "post_register e req =
     (if falsy (body req ''name'') \<or> falsy (body req ''email'') \<or> falsy (body req ''password'')
      then ret (page (RenderAuth (Some ''All fields are required.'')))
      else try_catch
             (register_try e (js_str (body req ''name'')) (js_str (body req ''email''))
                (js_str (body req ''password'')))
             (\<lambda>err. ret (page (RenderAuth (Some ''An internal server error occurred.'')))))"

definition login_try :: "env \<Rightarrow> string \<Rightarrow> string \<Rightarrow> response io" where
  "login_try e email password =
     bind (pool_query e (SelectUserByEmail email)) (\<lambda>result.
       (case user_rows result of
          [] \<Rightarrow> ret (page (RenderAuth (Some ''User not found.'')))
        | user # others \<Rightarrow>
            if \<not> bcrypt_compare password (u_password user)
            then ret (page (RenderAuth (Some ''Incorrect password.'')))
            else (case jwt_sign (u_id user) (u_name user) (jwt_secret e) (now e) of
                    Inl err \<Rightarrow> throw err
                  | Inr token \<Rightarrow>
                      ret \<lparr>cookies = [SetCookie ''token'' token],
                           reply = Redirect ''/dashboard''\<rparr>)))"

definition post_login :: "env \<Rightarrow> request \<Rightarrow> response io" where
  "post_login e req =
     (if falsy (body req ''email'') \<or> falsy (body req ''password'')
      then ret (page (RenderAuth (Some ''Email and password are required.'')))
      else try_catch
             (login_try e (js_str (body req ''email'')) (js_str (body req ''password'')))
             (\<lambda>err. ret (page (RenderAuth (Some ''An internal server error occurred.'')))))"

subsection \<open>The router\<close>

text \<open>
  The routes by method and path. A path with no route gets Express's own 404 page. The
  files that \<^verbatim>\<open>express.static('public')\<close> serves are not in the repository and are left
  out.
\<close>

definition server_get ::
  "env \<Rightarrow> (json option \<Rightarrow> 'k::linorder) \<Rightarrow> string \<Rightarrow> request \<Rightarrow> response io" where
  "server_get e time_key path req =
     (if path = ''/'' then get_root
      else if path = ''/form'' then get_form e req
      else if path = ''/dashboard'' then get_dashboard e time_key req
      else if path = ''/logout'' then get_logout
      else ret (page (Send 404 (''Cannot GET '' @ path))))"

definition server_post :: "env \<Rightarrow> string \<Rightarrow> request \<Rightarrow> response io" where
  "server_post e path req =
     (if path = ''/register'' then post_register e req
      else if path = ''/login'' then post_login e req
      else if path = ''/form'' then post_form e req
      else ret (page (Send 404 (''Cannot POST '' @ path))))"

subsection \<open>The browser script\<close>

text \<open>
  \<^verbatim>\<open>fetch\<close> with \<^verbatim>\<open>credentials: 'include'\<close>: the browser keeps the \<^verbatim>\<open>token\<close> cookie, follows
  a redirect with a GET (at most twenty times) and hands the script the reply it ends
  on. \<open>None\<close> stands for a fetch that never yields a response.
\<close>

fun set_jar :: "token option \<Rightarrow> cookie_op \<Rightarrow> token option" where
  "set_jar jar (SetCookie n t) = (if n = ''token'' then Some t else jar)"
| "set_jar jar (ClearCookie n) = (if n = ''token'' then None else jar)"

fun fetch_follow ::
  "nat \<Rightarrow> env \<Rightarrow> (json option \<Rightarrow> 'k::linorder) \<Rightarrow> token option \<Rightarrow> response \<Rightarrow> db \<Rightarrow>
   reply option \<times> db" where
  "fetch_follow 0 e time_key jar resp d =
     (case reply resp of Redirect path \<Rightarrow> (None, d) | r \<Rightarrow> (Some r, d))"
| "fetch_follow (Suc n) e time_key jar resp d =
     (case reply resp of
        Redirect path \<Rightarrow>
          (case server_get e time_key path
                  \<lparr>cookie_token = foldl set_jar jar (cookies resp), body = (\<lambda>k. None)\<rparr> d of
             (Inl err, d') \<Rightarrow> (None, d')
           | (Inr resp', d') \<Rightarrow>
               fetch_follow n e time_key (foldl set_jar jar (cookies resp)) resp' d')
      | r \<Rightarrow> (Some r, d))"

definition js_truthy :: "json \<Rightarrow> bool" where
  "js_truthy v =
     (case v of
        JNull \<Rightarrow> False
      | JBool b \<Rightarrow> b
      | JNum n \<Rightarrow> n \<noteq> 0
      | JStr s \<Rightarrow> s \<noteq> []
      | JArr xs \<Rightarrow> True
      | JObj ms \<Rightarrow> True)"

datatype client_outcome =
    StoreAndNavigate json    \<comment> \<open>\<^verbatim>\<open>localStorage.setItem('token', data.token)\<close>, then \<^verbatim>\<open>./index.html\<close>\<close>
  | AlertMessage json        \<comment> \<open>\<^verbatim>\<open>alert(data.message || 'Authentication failed')\<close>\<close>
  | AlertError               \<comment> \<open>the \<^verbatim>\<open>catch\<close>: \<^verbatim>\<open>alert('Error: ' + err)\<close>\<close>
  | Pending                  \<comment> \<open>no response arrived\<close>

text \<open>
  The two \<^verbatim>\<open>then\<close> steps and the \<^verbatim>\<open>catch\<close>: \<^verbatim>\<open>res.json()\<close> rejects on a body that is not
  JSON, which every rendered page and plain text is.
\<close>

definition auth_then :: "reply option \<Rightarrow> client_outcome" where
  "auth_then fetched =
     (case fetched of
        None \<Rightarrow> Pending
      | Some (Json data) \<Rightarrow>
          (case get_prop data ''token'' of
             Inl err \<Rightarrow> AlertError
           | Inr tok \<Rightarrow>
               (case tok of
                  Some t \<Rightarrow>
                    if js_truthy t then StoreAndNavigate t
                    else (case get_prop data ''message'' of
                            Inr (Some m) \<Rightarrow>
                              if js_truthy m then AlertMessage m
                              else AlertMessage (JStr ''Authentication failed'')
                          | _ \<Rightarrow> AlertMessage (JStr ''Authentication failed''))
                | None \<Rightarrow>
                    (case get_prop data ''message'' of
                       Inr (Some m) \<Rightarrow>
                         if js_truthy m then AlertMessage m
                         else AlertMessage (JStr ''Authentication failed'')
                     | _ \<Rightarrow> AlertMessage (JStr ''Authentication failed''))))
      | Some r \<Rightarrow> AlertError)"

text \<open>
  \<^verbatim>\<open>auth(endpoint)\<close>. The script posts a JSON body, which the server, mounting only
  \<^verbatim>\<open>express.urlencoded\<close>, does not parse: every body field is \<^verbatim>\<open>undefined\<close>.
\<close>

definition auth ::
  "env \<Rightarrow> (json option \<Rightarrow> 'k::linorder) \<Rightarrow> string \<Rightarrow> token option \<Rightarrow> db \<Rightarrow>
   client_outcome \<times> db" where
  "auth e time_key endpoint jar d =
     (case server_post e endpoint \<lparr>cookie_token = jar, body = (\<lambda>k. None)\<rparr> d of
        (Inl err, d') \<Rightarrow> (Pending, d')
      | (Inr resp, d') \<Rightarrow>
          (case fetch_follow 20 e time_key jar resp d' of
             (fetched, d'') \<Rightarrow> (auth_then fetched, d'')))"

subsection \<open>Notions used to state the properties\<close>

text \<open>The value of a property of a non-null entry, and the statement and row made from it.\<close>

definition entry_field :: "json \<Rightarrow> string \<Rightarrow> json option" where
  "entry_field item k = (case get_prop item k of Inl err \<Rightarrow> None | Inr v \<Rightarrow> v)"

definition item_query :: "nat \<Rightarrow> json \<Rightarrow> query" where
  "item_query uid item =
     InsertSchedule (entry_field item ''dayOfWeek'') (entry_field item ''startTime'')
       (entry_field item ''endTime'') (entry_field item ''subject'') uid"

definition item_row :: "nat \<Rightarrow> json \<Rightarrow> schedule_row" where
  "item_row uid item =
     \<lparr>s_day_of_week = sql_param (entry_field item ''dayOfWeek''),
      s_start_time = sql_param (entry_field item ''startTime''),
      s_end_time = sql_param (entry_field item ''endTime''),
      s_subject = sql_param (entry_field item ''subject''),
      s_user_id = uid\<rparr>"

text \<open>The tables a transaction begun in state \<open>d\<close> starts from.\<close>

definition start_tables :: "db \<Rightarrow> tables" where
  "start_tables d = (case txn d of None \<Rightarrow> committed d | Some t \<Rightarrow> t)"

definition replace_schedule :: "nat \<Rightarrow> json list \<Rightarrow> string option \<Rightarrow> tables \<Rightarrow> tables" where
  "replace_schedule uid items h t =
     t\<lparr>schedule_items :=
         filter (\<lambda>r. s_user_id r \<noteq> uid) (schedule_items t) @ map (item_row uid) items,
       users := map (\<lambda>u. if u_id u = uid then u\<lparr>u_daily_focus_hours := h\<rparr> else u) (users t)\<rparr>"

text \<open>The rows of one user, and the statements a handler sent.\<close>

definition schedule_of :: "nat \<Rightarrow> tables \<Rightarrow> schedule_row list" where
  "schedule_of uid t = filter (\<lambda>r. s_user_id r = uid) (schedule_items t)"

definition sent :: "db \<Rightarrow> db \<Rightarrow> query list" where
  "sent d d' = drop (length (qlog d)) (qlog d')"

text \<open>The user a writing statement writes for.\<close>

fun write_user :: "query \<Rightarrow> nat option" where
  "write_user (DeleteSchedule uid) = Some uid"
| "write_user (InsertSchedule d s en sub uid) = Some uid"
| "write_user (UpdateFocus h uid) = Some uid"
| "write_user q = None"

definition written_users :: "env \<Rightarrow> request \<Rightarrow> db \<Rightarrow> nat list" where
  "written_users e req d = List.map_filter write_user (sent d (snd (post_form e req d)))"

text \<open>
  A parse result that the loop cannot iterate: no JSON at all, or \<^verbatim>\<open>null\<close>, a boolean,
  a number or an object.
\<close>

fun not_iterable :: "json option \<Rightarrow> bool" where
  "not_iterable None = True"
| "not_iterable (Some (JArr xs)) = False"
| "not_iterable (Some (JStr s)) = False"
| "not_iterable (Some v) = True"

definition schedule_key :: "(json option \<Rightarrow> 'k::linorder) \<Rightarrow> schedule_row \<Rightarrow> nat \<times> 'k" where
  "schedule_key time_key r = (day_rank (s_day_of_week r), time_key (s_start_time r))"

text \<open>
  \<open>logs_for uid d d'\<close>: from \<open>d\<close> to \<open>d'\<close> statements were only added, and each added
  statement that writes does so for \<open>uid\<close>. \<open>html_or_redirect\<close>: the two kinds of reply
  the login and registration routes give.
\<close>

definition logs_for :: "nat \<Rightarrow> db \<Rightarrow> db \<Rightarrow> bool" where
  "logs_for uid d d' =
     (\<exists>new. qlog d' = qlog d @ new \<and>
        list_all (\<lambda>q. write_user q = None \<or> write_user q = Some uid) new)"

fun html_or_redirect :: "reply \<Rightarrow> bool" where
  "html_or_redirect (Redirect p) = True"
| "html_or_redirect (RenderAuth m) = True"
| "html_or_redirect r = False"

subsection \<open>Example inputs\<close>

text \<open>
  The scenario of the specification: Ada (user 1) holds a token issued at time 1000, two
  schedule rows are stored for her and one for Bob, and the model answers with one
  Monday entry inside a code fence. \<open>example_parse\<close> is \<^verbatim>\<open>JSON.parse\<close> on the four texts
  the examples use.
\<close>

definition example_claims :: jwt_claims where
  "example_claims = \<lparr>jid = 1, jname = ''Ada'', iat = 1000, exp = Some 87400\<rparr>"

definition example_token :: token where
  "example_token = Signed ''s3cret'' example_claims"

definition example_array_text :: string where
  \<open>example_array_text =
     ''[{"dayOfWeek":"Monday","startTime":"09:00","endTime":"11:00","subject":"Math"}]''\<close>

definition example_answer :: string where
  "example_answer = ''```json'' @ [CHR 0x0A] @ example_array_text @ [CHR 0x0A] @ ''```''"

definition example_entry :: json where
  "example_entry =
     JObj [(''dayOfWeek'', JStr ''Monday''), (''startTime'', JStr ''09:00''),
           (''endTime'', JStr ''11:00''), (''subject'', JStr ''Math'')]"

definition example_parse :: "string \<Rightarrow> json option" where
  \<open>example_parse s =
     (if s = example_array_text then Some (JArr [example_entry])
      else if s = ''[null]'' then Some (JArr [JNull])
      else if s = ''""'' then Some (JStr [])
      else if s = ''{}'' then Some (JObj [])
      else None)\<close>

definition example_env :: env where
  "example_env =
     \<lparr>now = 2000, jwt_secret = Some ''s3cret'', fails = (\<lambda>n. False), connect_fails = False,
      generate = (\<lambda>p. Some example_answer), json_parse = example_parse,
      bcrypt_salt = ''salt''\<rparr>"

definition example_tables :: tables where
  "example_tables =
     \<lparr>users =
        [\<lparr>u_id = 1, u_name = ''Ada'', u_email = ''ada@example.org'',
          u_password = Bcrypt 10 ''salt'' ''pw1'', u_daily_focus_hours = None\<rparr>,
         \<lparr>u_id = 2, u_name = ''Bob'', u_email = ''bob@example.org'',
          u_password = Bcrypt 10 ''salt'' ''pw2'', u_daily_focus_hours = Some ''3''\<rparr>],
      schedule_items =
        [\<lparr>s_day_of_week = Some (JStr ''Tuesday''), s_start_time = Some (JStr ''14:00''),
          s_end_time = Some (JStr ''15:00''), s_subject = Some (JStr ''Physics''),
          s_user_id = 1\<rparr>,
         \<lparr>s_day_of_week = Some (JStr ''Monday''), s_start_time = Some (JStr ''09:00''),
          s_end_time = Some (JStr ''10:00''), s_subject = Some (JStr ''History''),
          s_user_id = 1\<rparr>,
         \<lparr>s_day_of_week = Some (JStr ''Friday''), s_start_time = Some (JStr ''08:00''),
          s_end_time = Some (JStr ''09:00''), s_subject = Some (JStr ''Chemistry''),
          s_user_id = 2\<rparr>],
      user_streaks = [],
      users_id_seq = 3\<rparr>"

definition example_db :: db where
  "example_db = \<lparr>committed = example_tables, txn = None, qlog = [], acquired = 0, released = 0\<rparr>"

definition example_request :: request where
  "example_request =
     \<lparr>cookie_token = Some example_token,
      body = map_of [(''goal'', ''pass exam''), (''subjects'', ''Math,Physics''),
                     (''deadline'', ''7''), (''dailytime'', ''2'')]\<rparr>"

definition null_entry_env :: env where
  "null_entry_env = example_env\<lparr>generate := (\<lambda>p. Some ''[null]'')\<rparr>"

definition string_answer_env :: env where
  \<open>string_answer_env = example_env\<lparr>generate := (\<lambda>p. Some ''""'')\<rparr>\<close>

definition object_answer_env :: env where
  "object_answer_env = example_env\<lparr>generate := (\<lambda>p. Some ''{}'')\<rparr>"


text \<open>
  Further inputs of the examples: a clock a day later, a rejected first statement, a
  token for a user that has no row, a second body under the same token, a cookie that
  is no token, no cookie, three registration forms, rejected \<^verbatim>\<open>INSERT\<close> and \<^verbatim>\<open>ROLLBACK\<close>
  statements, a request of Bob's, and a rejected \<^verbatim>\<open>BEGIN\<close>.
\<close>

definition example_time_key :: "json option \<Rightarrow> nat" where
  "example_time_key v =
     (if v = Some (JStr ''08:00'') then 480
      else if v = Some (JStr ''09:00'') then 540
      else if v = Some (JStr ''14:00'') then 840
      else 1440)"

definition late_env :: env where
  "late_env = example_env\<lparr>now := 90000\<rparr>"

definition failing_select_env :: env where
  "failing_select_env = example_env\<lparr>fails := (\<lambda>n. n = 0)\<rparr>"

definition stranger_claims :: jwt_claims where
  "stranger_claims = \<lparr>jid = 7, jname = ''Zed'', iat = 1000, exp = Some 87400\<rparr>"

definition stranger_request :: request where
  "stranger_request = \<lparr>cookie_token = Some (Signed ''s3cret'' stranger_claims), body = (\<lambda>k. None)\<rparr>"

definition other_body_request :: request where
  "other_body_request =
     \<lparr>cookie_token = Some example_token,
      body = map_of [(''id'', ''2''), (''user_id'', ''2''), (''dailytime'', ''9'')]\<rparr>"

definition garbage_request :: request where
  "garbage_request = \<lparr>cookie_token = Some (Opaque ''garbage''), body = (\<lambda>k. None)\<rparr>"

definition anonymous_request :: request where
  "anonymous_request = \<lparr>cookie_token = None, body = (\<lambda>k. None)\<rparr>"

definition duplicate_register_request :: request where
  "duplicate_register_request =
     \<lparr>cookie_token = None,
      body = map_of [(''name'', ''Eve''), (''email'', ''ada@example.org''),
                     (''password'', ''pw3'')]\<rparr>"

definition fresh_register_request :: request where
  "fresh_register_request =
     \<lparr>cookie_token = None,
      body = map_of [(''name'', ''Eve''), (''email'', ''eve@example.org''),
                     (''password'', ''pw3'')]\<rparr>"

definition nameless_register_request :: request where
  "nameless_register_request =
     \<lparr>cookie_token = None,
      body = map_of [(''email'', ''eve@example.org''), (''password'', ''pw3'')]\<rparr>"

definition broken_rollback_env :: env where
  "broken_rollback_env = example_env\<lparr>fails := (\<lambda>n. n = 2 \<or> n = 3)\<rparr>"



definition rejected_begin_env :: env where
  "rejected_begin_env = object_answer_env\<lparr>fails := (\<lambda>n. n = 0)\<rparr>"

section \<open>Properties\<close>

subsection \<open>The pool counters\<close>

lemma client_query_pool: "acquired (snd (client_query e q d)) = acquired d \<and> released (snd (client_query e q d)) = released d"
  by (simp add: client_query_def Let_def split: query.split option.split prod.split)

lemma insert_item_pool: "acquired (snd (insert_item e uid item d)) = acquired d \<and> released (snd (insert_item e uid item d)) = released d"
  by (simp add: insert_item_def throw_def client_query_pool split: sum.split)

lemma bind_pool:
  assumes "\<And>d. acquired (snd (m d)) = acquired d \<and> released (snd (m d)) = released d"
    and "\<And>v d. acquired (snd (f v d)) = acquired d \<and> released (snd (f v d)) = released d"
  shows "acquired (snd (bind m f d)) = acquired d \<and> released (snd (bind m f d)) = released d"
proof (cases "m d")
  case (Pair r d')
  have m: "acquired d' = acquired d \<and> released d' = released d"
    using assms(1) [of d] Pair by simp
  show ?thesis
  proof (cases r)
    case (Inl err)
    with Pair m show ?thesis by (simp add: bind_def)
  next
    case (Inr v)
    with Pair m assms(2) [of v d'] show ?thesis by (simp add: bind_def)
  qed
qed

lemma insert_items_pool: "acquired (snd (insert_items e uid items d)) = acquired d \<and> released (snd (insert_items e uid items d)) = released d"
proof (induction items arbitrary: d)
  case Nil
  show ?case by (simp add: ret_def)
next
  case (Cons item rest)
  show ?case
    unfolding insert_items.simps
    by (rule bind_pool) (simp_all add: insert_item_pool Cons.IH)
qed

lemma ret_pool: "acquired (snd (ret v d)) = acquired d \<and> released (snd (ret v d)) = released d"
  by (simp add: ret_def)

lemma throw_pool: "acquired (snd (throw v d)) = acquired d \<and> released (snd (throw v d)) = released d"
  by (simp add: throw_def)

lemma form_transaction_pool: "acquired (snd (form_transaction e uid v h d)) = acquired d \<and> released (snd (form_transaction e uid v h d)) = released d"
  unfolding form_transaction_def
  by (intro bind_pool client_query_pool) (auto split: sum.split intro!: bind_pool client_query_pool insert_items_pool ret_pool throw_pool)

lemma form_try_pool: "acquired (snd (form_try e u req d)) = acquired d \<and> released (snd (form_try e u req d)) = released d"
  unfolding form_try_def
  by (auto split: sum.split option.split intro!: bind_pool form_transaction_pool ret_pool throw_pool)

lemma form_catch_pool: "acquired (snd (form_catch e err d)) = acquired d \<and> released (snd (form_catch e err d)) = released d"
  unfolding form_catch_def
  by (intro bind_pool client_query_pool ret_pool)

lemma tcf_pool: "acquired (snd (try_catch_finally (form_try e u req) (form_catch e) client_release d)) = acquired d \<and>
  released (snd (try_catch_finally (form_try e u req) (form_catch e) client_release d)) = Suc (released d)"
proof -
  obtain r1 d1 where b: "form_try e u req d = (r1, d1)" by (cases "form_try e u req d")
  have p1: "acquired d1 = acquired d \<and> released d1 = released d"
    using form_try_pool [of e u req d] b by simp
  show ?thesis
  proof (cases r1)
    case (Inl err)
    obtain r2 d2 where h: "form_catch e err d1 = (r2, d2)" by (cases "form_catch e err d1")
    have p2: "acquired d2 = acquired d1 \<and> released d2 = released d1"
      using form_catch_pool [of e err d1] h by simp
    show ?thesis using b Inl h p1 p2
      by (simp add: try_catch_finally_def client_release_def)
  next
    case (Inr v)
    show ?thesis using b Inr p1
      by (simp add: try_catch_finally_def client_release_def)
  qed
qed


subsection \<open>The accepted transaction\<close>

lemma get_prop_nonnull: "item \<noteq> JNull \<Longrightarrow> get_prop item k = Inr (entry_field item k)"
  by (cases item) (simp_all add: entry_field_def)

lemma client_query_rejected:
  "fails e (length (qlog d)) \<Longrightarrow> client_query e q d = (Inl DbError, d\<lparr>qlog := qlog d @ [q]\<rparr>)"
  by (simp add: client_query_def)

lemma client_query_begin:
  "\<not> fails e (length (qlog d)) \<Longrightarrow>
   client_query e Begin d = (Inr NoRows, d\<lparr>qlog := qlog d @ [Begin], txn := Some (start_tables d)\<rparr>)"
  by (cases "txn d") (simp_all add: client_query_def start_tables_def)

lemma client_query_insert:
  "\<not> fails e (length (qlog d)) \<Longrightarrow> txn d = Some t \<Longrightarrow>
   client_query e (InsertSchedule a b c s uid) d =
     (Inr NoRows, d\<lparr>qlog := qlog d @ [InsertSchedule a b c s uid],
        txn := Some (snd (apply_query (InsertSchedule a b c s uid) t))\<rparr>)"
  by (simp add: client_query_def)

lemma client_query_delete:
  "\<not> fails e (length (qlog d)) \<Longrightarrow> txn d = Some t \<Longrightarrow>
   client_query e (DeleteSchedule uid) d =
     (Inr NoRows, d\<lparr>qlog := qlog d @ [DeleteSchedule uid],
        txn := Some (snd (apply_query (DeleteSchedule uid) t))\<rparr>)"
  by (simp add: client_query_def)

lemma client_query_update:
  "\<not> fails e (length (qlog d)) \<Longrightarrow> txn d = Some t \<Longrightarrow>
   client_query e (UpdateFocus h uid) d =
     (Inr NoRows, d\<lparr>qlog := qlog d @ [UpdateFocus h uid],
        txn := Some (snd (apply_query (UpdateFocus h uid) t))\<rparr>)"
  by (simp add: client_query_def)

lemma client_query_commit:
  "\<not> fails e (length (qlog d)) \<Longrightarrow> txn d = Some t \<Longrightarrow>
   client_query e Commit d =
     (Inr NoRows, d\<lparr>qlog := qlog d @ [Commit], committed := t, txn := None\<rparr>)"
  by (simp add: client_query_def)

lemma insert_items_accepted:
  "\<forall>i < length items. \<not> fails e (length (qlog d) + i) \<Longrightarrow> JNull \<notin> set items \<Longrightarrow>
   txn d = Some t \<Longrightarrow>
   insert_items e uid items d =
     (Inr (), d\<lparr>qlog := qlog d @ map (item_query uid) items,
        txn := Some (t\<lparr>schedule_items := schedule_items t @ map (item_row uid) items\<rparr>)\<rparr>)"
proof (induction items arbitrary: d t)
  case Nil
  then show ?case by (simp add: ret_def)
next
  case (Cons item rest)
  let ?q = "item_query uid item"
  let ?t1 = "t\<lparr>schedule_items := schedule_items t @ [item_row uid item]\<rparr>"
  let ?d1 = "d\<lparr>qlog := qlog d @ [?q], txn := Some ?t1\<rparr>"
  have nn: "item \<noteq> JNull" using Cons.prems(2) by auto
  have ok: "\<not> fails e (length (qlog d))" using Cons.prems(1) by force
  have step: "insert_item e uid item d = (Inr NoRows, ?d1)"
    using ok Cons.prems(3) nn
    by (simp add: insert_item_def get_prop_nonnull item_query_def item_row_def client_query_insert)
  have rest_ok: "\<forall>i < length rest. \<not> fails e (length (qlog ?d1) + i)"
  proof (intro allI impI)
    fix i assume "i < length rest"
    then have "Suc i < length (item # rest)" by simp
    then have "\<not> fails e (length (qlog d) + Suc i)" using Cons.prems(1) by blast
    then show "\<not> fails e (length (qlog ?d1) + i)" by simp
  qed
  have "insert_items e uid rest ?d1 =
     (Inr (), ?d1\<lparr>qlog := qlog ?d1 @ map (item_query uid) rest,
        txn := Some (?t1\<lparr>schedule_items := schedule_items ?t1 @ map (item_row uid) rest\<rparr>)\<rparr>)"
    using Cons.IH [OF rest_ok, of ?t1] Cons.prems(2) by simp
  then show ?case using step by (simp add: bind_def)
qed

lemma form_transaction_accepted:
  assumes acc: "\<forall>i < length items + 4. \<not> fails e (length (qlog d) + i)"
    and nn: "JNull \<notin> set items"
    and it: "js_iterate v = Inr items"
  shows "form_transaction e uid v h d =
     (Inr (), d\<lparr>qlog := qlog d @ [Begin, DeleteSchedule uid] @ map (item_query uid) items @
                   [UpdateFocus h uid, Commit],
        committed := replace_schedule uid items h (start_tables d),
        txn := None\<rparr>)"
proof -
  define t0 where "t0 = start_tables d"
  define t1 where "t1 = t0\<lparr>schedule_items := filter (\<lambda>r. s_user_id r \<noteq> uid) (schedule_items t0)\<rparr>"
  define t2 where "t2 = t1\<lparr>schedule_items := schedule_items t1 @ map (item_row uid) items\<rparr>"
  define t3 where "t3 = snd (apply_query (UpdateFocus h uid) t2)"
  define d1 where "d1 = d\<lparr>qlog := qlog d @ [Begin], txn := Some t0\<rparr>"
  define d2 where "d2 = d1\<lparr>qlog := qlog d1 @ [DeleteSchedule uid], txn := Some t1\<rparr>"
  define d3 where "d3 = d2\<lparr>qlog := qlog d2 @ map (item_query uid) items, txn := Some t2\<rparr>"
  define d4 where "d4 = d3\<lparr>qlog := qlog d3 @ [UpdateFocus h uid], txn := Some t3\<rparr>"
  define d5 where "d5 = d4\<lparr>qlog := qlog d4 @ [Commit], committed := t3, txn := None\<rparr>"
  have l1: "length (qlog d1) = length (qlog d) + 1" by (simp add: d1_def)
  have l2: "length (qlog d2) = length (qlog d) + 2" by (simp add: d2_def d1_def)
  have l3: "length (qlog d3) = length (qlog d) + (length items + 2)"
    by (simp add: d3_def d2_def d1_def)
  have l4: "length (qlog d4) = length (qlog d) + (length items + 3)"
    by (simp add: d4_def d3_def d2_def d1_def)
  have a0: "\<not> fails e (length (qlog d))" using acc [rule_format, of 0] by simp
  have a1: "\<not> fails e (length (qlog d1))"
    unfolding l1 by (rule acc [rule_format]) simp
  have a2: "\<forall>i < length items. \<not> fails e (length (qlog d2) + i)"
  proof (intro allI impI)
    fix i assume "i < length items"
    then have "2 + i < length items + 4" by simp
    from acc [rule_format, OF this]
    show "\<not> fails e (length (qlog d2) + i)" by (simp add: l2 add.assoc)
  qed
  have a3: "\<not> fails e (length (qlog d3))"
    unfolding l3 by (rule acc [rule_format]) simp
  have a4: "\<not> fails e (length (qlog d4))"
    unfolding l4 by (rule acc [rule_format]) simp
  have s1: "client_query e Begin d = (Inr NoRows, d1)"
    unfolding d1_def t0_def using a0 by (rule client_query_begin)
  have s2: "client_query e (DeleteSchedule uid) d1 = (Inr NoRows, d2)"
    using client_query_delete [OF a1, of t0 uid] by (simp add: d2_def d1_def t1_def)
  have s3: "insert_items e uid items d2 = (Inr (), d3)"
    using insert_items_accepted [OF a2 nn, of t1 uid] by (simp add: d3_def d2_def t2_def)
  have s4: "client_query e (UpdateFocus h uid) d3 = (Inr NoRows, d4)"
    using client_query_update [OF a3, of t2 h uid] by (simp add: d4_def d3_def t3_def)
  have s5: "client_query e Commit d4 = (Inr NoRows, d5)"
    using client_query_commit [OF a4, of t3] by (simp add: d5_def d4_def)
  have "form_transaction e uid v h d = (Inr (), d5)"
    unfolding form_transaction_def by (simp add: bind_def s1 s2 it s3 s4 s5 ret_def)
  moreover have "d5 = d\<lparr>qlog := qlog d @ [Begin, DeleteSchedule uid] @ map (item_query uid) items @
                   [UpdateFocus h uid, Commit],
        committed := replace_schedule uid items h (start_tables d),
        txn := None\<rparr>"
    by (simp add: d5_def d4_def d3_def d2_def d1_def t3_def t2_def t1_def t0_def
        replace_schedule_def)
  ultimately show ?thesis by simp
qed

lemma client_query_data_keeps:
  assumes "client_query e q d = (r, d')" "q \<noteq> Commit" "q \<noteq> Rollback" "txn d \<noteq> None"
  shows "committed d' = committed d \<and> txn d' \<noteq> None"
  using assms
  by (cases q) (auto simp: client_query_def Let_def split: if_splits option.splits prod.splits)

lemma client_query_begin_keeps:
  assumes "client_query e Begin d = (r, d')"
  shows "committed d' = committed d \<and> (isl r \<or> txn d' \<noteq> None)"
  using assms
  by (auto simp: client_query_def Let_def split: if_splits option.splits)

lemma client_query_commit_rejected:
  assumes "client_query e Commit d = (Inl err, d')"
  shows "committed d' = committed d"
  using assms
  by (auto simp: client_query_def Let_def split: if_splits option.splits)

lemma client_query_rollback_keeps:
  assumes "client_query e Rollback d = (r, d')"
  shows "committed d' = committed d"
  using assms
  by (auto simp: client_query_def Let_def split: if_splits)

lemma insert_item_keeps:
  assumes "insert_item e uid item d = (r, d')" "txn d \<noteq> None"
  shows "committed d' = committed d \<and> txn d' \<noteq> None"
proof (cases item)
  case JNull
  with assms show ?thesis by (simp add: insert_item_def throw_def)
next
  case (JBool b)
  with assms client_query_data_keeps [of e _ d r d'] show ?thesis
    by (simp add: insert_item_def)
next
  case (JNum n)
  with assms client_query_data_keeps [of e _ d r d'] show ?thesis
    by (simp add: insert_item_def)
next
  case (JStr s)
  with assms client_query_data_keeps [of e _ d r d'] show ?thesis
    by (simp add: insert_item_def)
next
  case (JArr xs)
  with assms client_query_data_keeps [of e _ d r d'] show ?thesis
    by (simp add: insert_item_def)
next
  case (JObj ms)
  with assms client_query_data_keeps [of e _ d r d'] show ?thesis
    by (simp add: insert_item_def)
qed

lemma insert_items_keeps:
  assumes "insert_items e uid items d = (r, d')" "txn d \<noteq> None"
  shows "committed d' = committed d \<and> txn d' \<noteq> None"
  using assms
proof (induction items arbitrary: d)
  case Nil
  then show ?case by (simp add: ret_def)
next
  case (Cons item rest)
  obtain r1 d1 where s: "insert_item e uid item d = (r1, d1)"
    by (cases "insert_item e uid item d")
  have k: "committed d1 = committed d \<and> txn d1 \<noteq> None"
    using insert_item_keeps [OF s Cons.prems(2)] .
  show ?case
  proof (cases r1)
    case (Inl err)
    with s Cons.prems(1) k show ?thesis by (simp add: bind_def)
  next
    case (Inr v)
    with s Cons.prems(1) have "insert_items e uid rest d1 = (r, d')" by (simp add: bind_def)
    from Cons.IH [OF this] k show ?thesis by simp
  qed
qed

lemma form_transaction_thrown:
  assumes "form_transaction e uid v h d = (Inl err, d')"
  shows "committed d' = committed d"
proof -
  obtain r1 d1 where s1: "client_query e Begin d = (r1, d1)"
    by (cases "client_query e Begin d")
  have k1: "committed d1 = committed d \<and> (isl r1 \<or> txn d1 \<noteq> None)"
    using client_query_begin_keeps [OF s1] .
  show ?thesis
  proof (cases r1)
    case (Inl x)
    with assms s1 k1 show ?thesis by (simp add: form_transaction_def bind_def)
  next
    case r1: (Inr x1)
    with k1 have t1: "txn d1 \<noteq> None" by simp
    obtain r2 d2 where s2: "client_query e (DeleteSchedule uid) d1 = (r2, d2)"
      by (cases "client_query e (DeleteSchedule uid) d1")
    have k2: "committed d2 = committed d1 \<and> txn d2 \<noteq> None"
      using client_query_data_keeps [OF s2 _ _ t1] by simp
    show ?thesis
    proof (cases r2)
      case (Inl x)
      with assms s1 r1 s2 k1 k2 show ?thesis by (simp add: form_transaction_def bind_def)
    next
      case r2: (Inr x2)
      show ?thesis
      proof (cases "js_iterate v")
        case (Inl x)
        with assms s1 r1 s2 r2 k1 k2 show ?thesis
          by (simp add: form_transaction_def bind_def throw_def)
      next
        case it: (Inr items)
        obtain r3 d3 where s3: "insert_items e uid items d2 = (r3, d3)"
          by (cases "insert_items e uid items d2")
        have k3: "committed d3 = committed d2 \<and> txn d3 \<noteq> None"
          using insert_items_keeps [OF s3] k2 by simp
        show ?thesis
        proof (cases r3)
          case (Inl x)
          with assms s1 r1 s2 r2 it s3 k1 k2 k3 show ?thesis
            by (simp add: form_transaction_def bind_def)
        next
          case r3: (Inr x3)
          obtain r4 d4 where s4: "client_query e (UpdateFocus h uid) d3 = (r4, d4)"
            by (cases "client_query e (UpdateFocus h uid) d3")
          have k4: "committed d4 = committed d3 \<and> txn d4 \<noteq> None"
            using client_query_data_keeps [OF s4] k3 by simp
          show ?thesis
          proof (cases r4)
            case (Inl x)
            with assms s1 r1 s2 r2 it s3 r3 s4 k1 k2 k3 k4 show ?thesis
              by (simp add: form_transaction_def bind_def)
          next
            case r4: (Inr x4)
            obtain r5 d5 where s5: "client_query e Commit d4 = (r5, d5)"
              by (cases "client_query e Commit d4")
            show ?thesis
            proof (cases r5)
              case (Inl x)
              with assms s1 r1 s2 r2 it s3 r3 s4 r4 s5 have "d' = d5"
                by (simp add: form_transaction_def bind_def)
              with client_query_commit_rejected [of e d4 x d5] s5 Inl k1 k2 k3 k4
              show ?thesis by simp
            next
              case (Inr x5)
              with assms s1 r1 s2 r2 it s3 r3 s4 r4 s5 show ?thesis
                by (simp add: form_transaction_def bind_def ret_def)
            qed
          qed
        qed
      qed
    qed
  qed
qed

subsection \<open>What a returned or thrown transaction implies\<close>





lemma tcf_returned:
  assumes "m d = (Inr v, d1)"
  shows "try_catch_finally m handler client_release d = (Inr v, d1\<lparr>released := Suc (released d1)\<rparr>)"
  using assms by (simp add: try_catch_finally_def client_release_def)

lemma tcf_thrown:
  assumes "m d = (Inl err, d1)" "handler err d1 = (r2, d2)"
  shows "try_catch_finally m handler client_release d = (r2, d2\<lparr>released := Suc (released d2)\<rparr>)"
  using assms by (simp add: try_catch_finally_def client_release_def)

lemma post_form_passed:
  assumes "verifyToken e req = Inr user" "\<not> connect_fails e"
  shows "post_form e req d =
     try_catch_finally (form_try e user req) (form_catch e) client_release
       (d\<lparr>acquired := Suc (acquired d)\<rparr>)"
  using assms by (simp add: post_form_def bind_def pool_connect_def)

lemma form_try_parsed:
  assumes "generate e (form_prompt (body req)) = Some text"
    and "json_parse e (clean text) = Some v" and "v \<noteq> JNull"
  shows "form_try e user req =
     bind (form_transaction e (jid user) v (body req ''dailytime''))
       (\<lambda>u. ret (page (Redirect ''/dashboard'')))"
  using assms by (cases v) (simp_all add: form_try_def)

lemma form_catch_result:
  "form_catch e err d =
     (if fails e (length (qlog d)) then (Inl DbError, d\<lparr>qlog := qlog d @ [Rollback]\<rparr>)
      else (Inr (page (Send 500 ''An error occurred while generating the schedule.'')),
            d\<lparr>qlog := qlog d @ [Rollback], txn := None\<rparr>))"
  by (simp add: form_catch_def bind_def client_query_def ret_def)

lemma form_try_thrown:
  assumes "form_try e user req d = (Inl err, d')"
  shows "committed d' = committed d"
proof (cases "generate e (form_prompt (body req))")
  case None
  with assms show ?thesis by (simp add: form_try_def throw_def)
next
  case (Some answer)
  show ?thesis
  proof (cases "json_parse e (clean answer)")
    case None
    with assms Some show ?thesis by (simp add: form_try_def throw_def)
  next
    case v: (Some v)
    show ?thesis
    proof (cases "v = JNull")
      case True
      with assms Some v show ?thesis by (simp add: form_try_def throw_def)
    next
      case False
      obtain r1 d1 where t: "form_transaction e (jid user) v (body req ''dailytime'') d = (r1, d1)"
        by (cases "form_transaction e (jid user) v (body req ''dailytime'') d")
      show ?thesis
      proof (cases r1)
        case (Inl x)
        with assms t form_try_parsed [OF Some v False, of user] form_transaction_thrown [of e _ v _ d x d1]
        show ?thesis by (simp add: bind_def)
      next
        case (Inr x)
        with assms t form_try_parsed [OF Some v False, of user] show ?thesis
          by (simp add: bind_def ret_def)
      qed
    qed
  qed
qed

text \<open>Whenever the handler does not answer with the redirect to the dashboard, the committed tables are as before.\<close>

lemma post_form_thrown_keeps:
  assumes p: "verifyToken e req = Inr user" "\<not> connect_fails e"
    and t: "form_try e user req (d\<lparr>acquired := Suc (acquired d)\<rparr>) = (Inl err, d1)"
  shows "committed (snd (post_form e req d)) = committed d \<and>
         last (qlog (snd (post_form e req d))) = Rollback \<and>
         sent d1 (snd (post_form e req d)) = [Rollback] \<and>
         fst (post_form e req d) =
           (if fails e (length (qlog d1)) then Inl DbError
            else Inr (page (Send 500 ''An error occurred while generating the schedule.'')))"
proof -
  have c: "committed d1 = committed d"
    using form_try_thrown [OF t] by simp
  obtain r2 d2 where h: "form_catch e err d1 = (r2, d2)"
    by (cases "form_catch e err d1")
  have pf: "post_form e req d = (r2, d2\<lparr>released := Suc (released d2)\<rparr>)"
    using post_form_passed [OF p, of d] tcf_thrown [where m = "form_try e user req" and handler = "form_catch e", OF t h] by simp
  show ?thesis using h c unfolding pf
    by (auto simp: form_catch_result sent_def split: if_splits)
qed

subsection \<open>The example runs\<close>

lemma clean_example: "clean example_answer = example_array_text"
  by code_simp

lemma clean_null: "clean ''[null]'' = ''[null]''"
  by code_simp

lemma clean_quotes: \<open>clean ''""'' = ''""''\<close>
  by code_simp

lemma clean_braces: "clean ''{}'' = ''{}''"
  by code_simp

lemma verify_example: "verifyToken example_env example_request = Inr example_claims"
  by (simp add: verifyToken_def no_token_def jwt_verify_def example_env_def example_request_def
      example_token_def example_claims_def)


lemmas form_run_defs =
  post_form_def bind_def ret_def throw_def pool_connect_def client_release_def
  try_catch_finally_def form_try_def form_catch_def form_transaction_def insert_item_def
  client_query_def page_def verifyToken_def no_token_def jwt_verify_def

lemmas example_defs =
  example_env_def example_request_def example_token_def example_claims_def example_db_def
  example_parse_def example_array_text_def

lemma null_run:
  "post_form null_entry_env example_request example_db =
     (Inr (page (Send 500 ''An error occurred while generating the schedule.'')),
      example_db\<lparr>qlog := [Begin, DeleteSchedule 1, Rollback], acquired := 1, released := 1\<rparr>)"
  by (simp add: form_run_defs null_entry_env_def example_defs clean_null)

lemma example_run:
  "post_form example_env example_request example_db =
     (Inr (page (Redirect ''/dashboard'')),
      example_db\<lparr>qlog := [Begin, DeleteSchedule 1, item_query 1 example_entry,
                              UpdateFocus (Some ''2'') 1, Commit],
        committed := replace_schedule 1 [example_entry] (Some ''2'') example_tables,
        acquired := 1, released := 1\<rparr>)"
  by (simp add: form_run_defs example_defs clean_example [unfolded example_array_text_def]
      replace_schedule_def item_query_def item_row_def entry_field_def example_entry_def)

lemma string_run:
  "post_form string_answer_env example_request example_db =
     (Inr (page (Redirect ''/dashboard'')),
      example_db\<lparr>qlog := [Begin, DeleteSchedule 1, UpdateFocus (Some ''2'') 1, Commit],
        committed := replace_schedule 1 [] (Some ''2'') example_tables,
        acquired := 1, released := 1\<rparr>)"
  by (simp add: form_run_defs string_answer_env_def example_defs clean_quotes replace_schedule_def)

subsection \<open>Further facts about the handlers\<close>

lemma form_transaction_not_iterable:
  assumes "js_iterate v = Inl x"
  shows "isl (fst (form_transaction e uid v h d))"
  using assms
  by (simp add: form_transaction_def bind_def throw_def split: prod.splits sum.splits)

lemma form_try_not_iterable:
  assumes g: "generate e (form_prompt (body req)) = Some answer"
    and n: "not_iterable (json_parse e (clean answer))"
  shows "isl (fst (form_try e user req d))"
proof (cases "json_parse e (clean answer)")
  case None
  with g show ?thesis by (simp add: form_try_def throw_def)
next
  case (Some v)
  show ?thesis
  proof (cases "v = JNull")
    case True
    with g Some show ?thesis by (simp add: form_try_def throw_def)
  next
    case False
    have "js_iterate v = Inl TypeError" using n Some False by (cases v) simp_all
    from form_transaction_not_iterable [OF this, of e "jid user" "body req ''dailytime''" d]
    show ?thesis
      using form_try_parsed [OF g Some False, of user]
      by (auto simp: bind_def split: prod.splits sum.splits)
  qed
qed

lemma logs_for_refl: "qlog d' = qlog d \<Longrightarrow> logs_for uid d d'"
  by (simp add: logs_for_def)

lemma logs_for_trans: "logs_for uid d d1 \<Longrightarrow> logs_for uid d1 d2 \<Longrightarrow> logs_for uid d d2"
  by (auto simp: logs_for_def)

lemma client_query_log: "qlog (snd (client_query e q d)) = qlog d @ [q]"
  by (cases q) (auto simp: client_query_def Let_def split: option.splits prod.splits)

lemma client_query_logs_for:
  assumes "write_user q = None \<or> write_user q = Some uid"
  shows "logs_for uid d (snd (client_query e q d))"
  using assms by (simp add: logs_for_def client_query_log)

lemma bind_logs_for:
  assumes "\<And>d. logs_for uid d (snd (m d))" and "\<And>v d. logs_for uid d (snd (f v d))"
  shows "logs_for uid d (snd (bind m f d))"
proof (cases "m d")
  case (Pair r d1)
  have m: "logs_for uid d d1" using assms(1) [of d] Pair by simp
  show ?thesis
  proof (cases r)
    case (Inl err)
    with Pair m show ?thesis by (simp add: bind_def)
  next
    case (Inr v)
    have "logs_for uid d1 (snd (f v d1))" by (rule assms(2))
    with m Pair Inr show ?thesis
      by (auto simp: bind_def intro: logs_for_trans)
  qed
qed

lemma insert_item_logs_for: "logs_for uid d (snd (insert_item e uid item d))"
  by (cases item)
     (simp_all add: insert_item_def throw_def client_query_logs_for logs_for_refl)

lemma insert_items_logs_for: "logs_for uid d (snd (insert_items e uid items d))"
proof (induction items arbitrary: d)
  case Nil
  show ?case by (simp add: ret_def logs_for_refl)
next
  case (Cons item rest)
  show ?case
    unfolding insert_items.simps
    by (rule bind_logs_for) (simp_all add: insert_item_logs_for Cons.IH)
qed

lemma form_transaction_logs_for: "logs_for uid d (snd (form_transaction e uid v h d))"
  unfolding form_transaction_def
  by (intro bind_logs_for client_query_logs_for)
     (auto split: sum.split simp: throw_def ret_def logs_for_refl
           intro!: bind_logs_for client_query_logs_for insert_items_logs_for)

lemma form_try_logs_for: "logs_for (jid user) d (snd (form_try e user req d))"
  unfolding form_try_def
  by (auto split: sum.split option.split simp: throw_def ret_def logs_for_refl
           intro!: bind_logs_for form_transaction_logs_for)

lemma form_catch_logs_for: "logs_for uid d (snd (form_catch e err d))"
  unfolding form_catch_def
  by (intro bind_logs_for client_query_logs_for) (simp_all add: ret_def logs_for_refl)

lemma post_form_logs_for:
  assumes "verifyToken e req = Inr user"
  shows "logs_for (jid user) d (snd (post_form e req d))"
proof (cases "connect_fails e")
  case True
  with assms show ?thesis
    by (simp add: post_form_def bind_def pool_connect_def logs_for_refl)
next
  case False
  let ?d0 = "d\<lparr>acquired := Suc (acquired d)\<rparr>"
  obtain r1 d1 where t: "form_try e user req ?d0 = (r1, d1)"
    by (cases "form_try e user req ?d0")
  have l1: "logs_for (jid user) d d1"
    using form_try_logs_for [of user ?d0 e req] t by (simp add: logs_for_def)
  show ?thesis
  proof (cases r1)
    case (Inr v)
    with t have "form_try e user req ?d0 = (Inr v, d1)" by simp
    from tcf_returned [where m = "form_try e user req", OF this] l1
    show ?thesis
      unfolding post_form_passed [OF assms False] by (simp add: logs_for_def)
  next
    case (Inl err)
    obtain r2 d2 where h: "form_catch e err d1 = (r2, d2)"
      by (cases "form_catch e err d1")
    have l2: "logs_for (jid user) d1 d2"
      using form_catch_logs_for [of "jid user" d1 e err] h by simp
    from t Inl have "form_try e user req ?d0 = (Inl err, d1)" by simp
    from tcf_thrown [where m = "form_try e user req" and handler = "form_catch e", OF this h]
      logs_for_trans [OF l1 l2]
    show ?thesis
      unfolding post_form_passed [OF assms False] by (simp add: logs_for_def)
  qed
qed

lemma written_users_subset:
  assumes "verifyToken e req = Inr user"
  shows "set (written_users e req d) \<subseteq> {jid user}"
proof -
  obtain new where n: "qlog (snd (post_form e req d)) = qlog d @ new"
    "list_all (\<lambda>q. write_user q = None \<or> write_user q = Some (jid user)) new"
    using post_form_logs_for [OF assms, of d] by (auto simp: logs_for_def)
  have "sent d (snd (post_form e req d)) = new" using n(1) by (simp add: sent_def)
  then show ?thesis using n(2)
    by (auto simp: written_users_def List.map_filter_def list_all_iff)
qed

lemma verifyToken_cong:
  assumes "cookie_token req' = cookie_token req" "jwt_secret e' = jwt_secret e" "now e' = now e"
  shows "verifyToken e' req' = verifyToken e req"
  using assms by (auto simp: verifyToken_def split: option.splits)

lemma protected_rejected:
  assumes "verifyToken e req = Inl resp"
  shows "get_form e req d = (Inr resp, d) \<and>
         get_dashboard e time_key req d = (Inr resp, d) \<and>
         post_form e req d = (Inr resp, d)"
  using assms by (simp add: get_form_def get_dashboard_def post_form_def ret_def)

lemma jwt_verify_expired:
  assumes "jwt_sign uid nm secret t0 = Inr tok" "t0 + 86400 \<le> t"
  shows "isl (jwt_verify tok k t)"
  using assms
  by (auto simp: jwt_sign_def jwt_verify_def split: option.splits if_splits)

lemma verifyToken_rejects:
  assumes "cookie_token req = Some tok" "isl (jwt_verify tok (jwt_secret e) (now e))"
  shows "verifyToken e req = Inl (page (Redirect ''/'')) \<or>
         verifyToken e req = Inl \<lparr>cookies = [ClearCookie ''token''], reply = Redirect ''/''\<rparr>"
  using assms by (auto simp: verifyToken_def split: sum.splits)

lemma get_form_not_json: "get_form e req d = (Inr resp, d') \<Longrightarrow> reply resp \<noteq> Json j"
  by (auto simp: get_form_def verifyToken_def ret_def page_def split: sum.splits option.splits if_splits)

lemma get_dashboard_not_json:
  "get_dashboard e time_key req d = (Inr resp, d') \<Longrightarrow> reply resp \<noteq> Json j"
  by (auto simp: get_dashboard_def verifyToken_def ret_def page_def try_catch_def bind_def
      split: sum.splits option.splits if_splits prod.splits list.splits)

lemma server_get_not_json:
  "server_get e time_key path req d = (Inr resp, d') \<Longrightarrow> reply resp \<noteq> Json j"
  using get_form_not_json [of e req d resp d' j] get_dashboard_not_json [of e time_key req d resp d' j]
  by (auto simp: server_get_def get_root_def get_logout_def ret_def page_def split: if_splits)

lemma fetch_follow_not_json:
  "reply resp \<noteq> Json j \<Longrightarrow> fst (fetch_follow n e time_key jar resp d) \<noteq> Some (Json j)"
proof (induction n arbitrary: jar resp d)
  case 0
  then show ?case by (cases "reply resp") simp_all
next
  case (Suc n)
  show ?case
  proof (cases "reply resp")
    case (Redirect path)
    let ?jar = "foldl set_jar jar (cookies resp)"
    obtain r1 d1 where g: "server_get e time_key path \<lparr>cookie_token = ?jar, body = (\<lambda>k. None)\<rparr> d = (r1, d1)"
      by (cases "server_get e time_key path \<lparr>cookie_token = ?jar, body = (\<lambda>k. None)\<rparr> d")
    show ?thesis
    proof (cases r1)
      case (Inl err)
      with Redirect g show ?thesis by simp
    next
      case (Inr resp')
      have "reply resp' \<noteq> Json j" using server_get_not_json g Inr by blast
      from Suc.IH [OF this] Redirect g Inr show ?thesis by simp
    qed
  qed (use Suc.prems in simp_all)
qed

lemma post_login_reply:
  "\<exists>resp d'. post_login e req d = (Inr resp, d') \<and>
     ((\<exists>p. reply resp = Redirect p) \<or> (\<exists>m. reply resp = RenderAuth m))"
  by (auto simp: post_login_def login_try_def try_catch_def bind_def ret_def throw_def page_def
      split: prod.splits sum.splits list.splits if_splits)

lemma post_register_reply:
  "\<exists>resp d'. post_register e req d = (Inr resp, d') \<and>
     ((\<exists>p. reply resp = Redirect p) \<or> (\<exists>m. reply resp = RenderAuth m))"
  by (auto simp: post_register_def register_try_def try_catch_def bind_def ret_def throw_def
      page_def split: prod.splits sum.splits list.splits if_splits)

lemma pool_query_rejected:
  "fails e (length (qlog d)) \<Longrightarrow> pool_query e q d = (Inl DbError, d\<lparr>qlog := qlog d @ [q]\<rparr>)"
  by (simp add: pool_query_def)

lemma pool_query_select_email:
  "\<not> fails e (length (qlog d)) \<Longrightarrow>
   pool_query e (SelectUserByEmail em) d =
     (Inr (UserRows (filter (\<lambda>u. u_email u = em) (users (committed d)))),
      d\<lparr>qlog := qlog d @ [SelectUserByEmail em]\<rparr>)"
  by (simp add: pool_query_def)

lemma register_try_duplicate:
  assumes "\<exists>u \<in> set (users (committed d)). u_email u = em"
  shows "committed (snd (register_try e nm em pw d)) = committed d \<and>
         (fst (register_try e nm em pw d) = Inl DbError \<or>
          fst (register_try e nm em pw d) =
            Inr (page (RenderAuth (Some ''User with this email already exists.'')))) \<and>
         (\<not> fails e (length (qlog d)) \<longrightarrow>
          fst (register_try e nm em pw d) =
            Inr (page (RenderAuth (Some ''User with this email already exists.''))))"
proof (cases "fails e (length (qlog d))")
  case True
  then show ?thesis by (simp add: register_try_def bind_def pool_query_rejected)
next
  case False
  have "filter (\<lambda>u. u_email u = em) (users (committed d)) \<noteq> []"
    using assms by (auto simp: filter_empty_conv)
  with False show ?thesis
    by (simp add: register_try_def bind_def pool_query_select_email ret_def)
qed

lemma post_register_duplicate:
  assumes "body req ''email'' = Some em" "\<exists>u \<in> set (users (committed d)). u_email u = em"
  shows "committed (snd (post_register e req d)) = committed d \<and>
         (\<exists>msg. fst (post_register e req d) = Inr (page (RenderAuth (Some msg)))) \<and>
         (\<not> falsy (body req ''name'') \<and> em \<noteq> [] \<and> \<not> falsy (body req ''password'') \<and>
          \<not> fails e (length (qlog d)) \<longrightarrow>
          fst (post_register e req d) =
            Inr (page (RenderAuth (Some ''User with this email already exists.''))))"
proof (cases "falsy (body req ''name'') \<or> falsy (body req ''email'') \<or> falsy (body req ''password'')")
  case True
  then show ?thesis using assms(1) by (auto simp: post_register_def ret_def falsy_def)
next
  case False
  let ?nm = "js_str (body req ''name'')" and ?pw = "js_str (body req ''password'')"
  have em: "js_str (body req ''email'') = em" using assms(1) by (simp add: js_str_def)
  obtain r1 d1 where t: "register_try e ?nm em ?pw d = (r1, d1)"
    by (cases "register_try e ?nm em ?pw d")
  from register_try_duplicate [OF assms(2), of e ?nm ?pw] t
  have k: "committed d1 = committed d"
    "r1 = Inl DbError \<or> r1 = Inr (page (RenderAuth (Some ''User with this email already exists.'')))"
    "\<not> fails e (length (qlog d)) \<longrightarrow>
       r1 = Inr (page (RenderAuth (Some ''User with this email already exists.'')))"
    by simp_all
  show ?thesis using False t k em
    by (auto simp: post_register_def try_catch_def ret_def)
qed

lemma post_register_fresh:
  assumes f: "body req ''name'' = Some nm" "body req ''email'' = Some em"
      "body req ''password'' = Some pw" "nm \<noteq> []" "em \<noteq> []" "pw \<noteq> []"
    and fresh: "\<not> (\<exists>u \<in> set (users (committed d)). u_email u = em)"
    and acc: "\<not> fails e (length (qlog d))" "\<not> fails e (Suc (length (qlog d)))"
    and key: "jwt_secret e = Some k" "k \<noteq> []"
  shows "users (committed (snd (post_register e req d))) =
           users (committed d) @
           [\<lparr>u_id = users_id_seq (committed d), u_name = nm, u_email = em,
             u_password = bcrypt_hash pw 10 (bcrypt_salt e), u_daily_focus_hours = None\<rparr>] \<and>
         fst (post_register e req d) =
           Inr \<lparr>cookies = [SetCookie ''token''
                   (Signed k \<lparr>jid = users_id_seq (committed d), jname = nm, iat = now e,
                              exp = Some (now e + 86400)\<rparr>)],
                reply = Redirect ''/form''\<rparr>"
proof -
  have e0: "filter (\<lambda>u. u_email u = em) (users (committed d)) = []"
    using fresh by (auto simp: filter_empty_conv)
  have "register_try e nm em pw d =
     (Inr \<lparr>cookies = [SetCookie ''token''
                   (Signed k \<lparr>jid = users_id_seq (committed d), jname = nm, iat = now e,
                              exp = Some (now e + 86400)\<rparr>)],
                reply = Redirect ''/form''\<rparr>,
      d\<lparr>qlog := qlog d @ [SelectUserByEmail em, InsertUser nm em (bcrypt_hash pw 10 (bcrypt_salt e))],
        committed := (committed d)\<lparr>users := users (committed d) @
           [\<lparr>u_id = users_id_seq (committed d), u_name = nm, u_email = em,
             u_password = bcrypt_hash pw 10 (bcrypt_salt e), u_daily_focus_hours = None\<rparr>],
           users_id_seq := Suc (users_id_seq (committed d))\<rparr>\<rparr>)"
    using acc key e0
    by (simp add: register_try_def bind_def pool_query_def ret_def jwt_sign_def)
  then show ?thesis using f
    by (simp add: post_register_def try_catch_def falsy_def js_str_def)
qed

lemma dashboard_queries_accepted:
  assumes "\<forall>i<3. \<not> fails e (length (qlog d) + i)"
  shows "dashboard_queries e uid d =
     (Inr (UserRows (filter (\<lambda>u. u_id u = uid) (users (committed d))),
           ScheduleRows (filter (\<lambda>r. s_user_id r = uid) (schedule_items (committed d))),
           StreakRows (filter (\<lambda>k. k_user_id k = uid) (user_streaks (committed d)))),
      d\<lparr>qlog := qlog d @ [SelectUserById uid, SelectSchedule uid, SelectStreak uid]\<rparr>)"
proof -
  have a: "\<not> fails e (length (qlog d))" "\<not> fails e (Suc (length (qlog d)))"
    "\<not> fails e (Suc (Suc (length (qlog d))))"
    using assms [rule_format, of 0] assms [rule_format, of 1] assms [rule_format, of 2]
    by simp_all
  show ?thesis using a by (simp add: dashboard_queries_def pool_query_def)
qed

lemma order_schedule_sorted:
  "sorted (map (schedule_key time_key) (order_schedule time_key rs)) \<and>
   mset (order_schedule time_key rs) = mset rs"
proof -
  have "schedule_key time_key = (\<lambda>r. (day_rank (s_day_of_week r), time_key (s_start_time r)))"
    by (rule ext) (simp add: schedule_key_def)
  then show ?thesis by (simp add: order_schedule_def)
qed


lemma object_run:
  "post_form object_answer_env example_request example_db =
     (Inr (page (Send 500 ''An error occurred while generating the schedule.'')),
      example_db\<lparr>qlog := [Begin, DeleteSchedule 1, Rollback], acquired := 1, released := 1\<rparr>)"
  by (simp add: form_run_defs object_answer_env_def example_defs clean_braces)

lemma other_body_run:
  "post_form example_env other_body_request example_db =
     (Inr (page (Redirect ''/dashboard'')),
      example_db\<lparr>qlog := [Begin, DeleteSchedule 1, item_query 1 example_entry,
                              UpdateFocus (Some ''9'') 1, Commit],
        committed := replace_schedule 1 [example_entry] (Some ''9'') example_tables,
        acquired := 1, released := 1\<rparr>)"
  by (simp add: form_run_defs example_defs other_body_request_def
      clean_example [unfolded example_array_text_def]
      replace_schedule_def item_query_def item_row_def entry_field_def example_entry_def)

lemma nameless_run:
  "post_register example_env nameless_register_request example_db =
     (Inr (page (RenderAuth (Some ''All fields are required.''))), example_db)"
  by (simp add: post_register_def nameless_register_request_def falsy_def ret_def)

lemma stranger_verified: "verifyToken failing_select_env stranger_request = Inr stranger_claims"
  by (simp add: verifyToken_def no_token_def jwt_verify_def failing_select_env_def example_env_def
      stranger_request_def stranger_claims_def)

lemma stranger_run:
  "get_dashboard failing_select_env example_time_key stranger_request example_db =
     (Inr (page (Send 500 ''Error loading dashboard.'')),
      example_db\<lparr>qlog := [SelectUserById 7, SelectSchedule 7, SelectStreak 7]\<rparr>)"
  by (simp add: get_dashboard_def stranger_verified try_catch_def bind_def dashboard_queries_def
      pool_query_def ret_def stranger_claims_def)
     (simp add: failing_select_env_def example_env_def example_db_def)

lemma broken_rollback_run:
  "post_form broken_rollback_env example_request example_db =
     (Inl DbError,
      example_db\<lparr>qlog := [Begin, DeleteSchedule 1, item_query 1 example_entry, Rollback],
        txn := Some (example_tables\<lparr>schedule_items :=
                 filter (\<lambda>r. s_user_id r \<noteq> 1) (schedule_items example_tables)\<rparr>),
        acquired := 1, released := 1\<rparr>)"
  by (simp add: form_run_defs broken_rollback_env_def example_defs
      clean_example [unfolded example_array_text_def]
      item_query_def entry_field_def example_entry_def)

lemma post_form_thrown_rollback:
  assumes p: "verifyToken e req = Inr user" "\<not> connect_fails e"
    and t: "form_try e user req (d\<lparr>acquired := Suc (acquired d)\<rparr>) = (Inl err, d1)"
  shows "qlog (snd (post_form e req d)) = qlog d1 @ [Rollback] \<and>
         (\<not> fails e (length (qlog d1)) \<longrightarrow>
            txn (snd (post_form e req d)) = None \<and>
            fst (post_form e req d) =
              Inr (page (Send 500 ''An error occurred while generating the schedule.'')))"
proof -
  obtain r2 d2 where h: "form_catch e err d1 = (r2, d2)"
    by (cases "form_catch e err d1")
  have pf: "post_form e req d = (r2, d2\<lparr>released := Suc (released d2)\<rparr>)"
    using post_form_passed [OF p, of d]
      tcf_thrown [where m = "form_try e user req" and handler = "form_catch e", OF t h]
    by simp
  show ?thesis using h unfolding pf
    by (auto simp: form_catch_result split: if_splits)
qed

lemma last_statement_number:
  assumes "qlog d' = qlog d1 @ [Rollback]"
  shows "length (qlog d') - 1 = length (qlog d1)"
  using assms by simp

lemma rejected_begin_run:
  "post_form rejected_begin_env example_request example_db =
     (Inr (page (Send 500 ''An error occurred while generating the schedule.'')),
      example_db\<lparr>qlog := [Begin, Rollback], acquired := 1, released := 1\<rparr>)"
  by (simp add: form_run_defs rejected_begin_env_def object_answer_env_def example_defs
      clean_braces)


lemma pool_query_select_keeps:
  "committed (snd (pool_query e (SelectUserById uid) d)) = committed d \<and>
   committed (snd (pool_query e (SelectSchedule uid) d)) = committed d \<and>
   committed (snd (pool_query e (SelectStreak uid) d)) = committed d"
  by (simp add: pool_query_def Let_def)

lemma pool_query_log: "qlog (snd (pool_query e q d)) = qlog d @ [q]"
  by (simp add: pool_query_def Let_def split: prod.splits)

lemma pool_query_isl: "isl (fst (pool_query e q d)) = fails e (length (qlog d))"
  by (simp add: pool_query_def Let_def split: prod.splits)

lemma dashboard_queries_rejected:
  assumes "\<exists>i<3. fails e (length (qlog d) + i)"
  shows "isl (fst (dashboard_queries e uid d)) \<and>
         committed (snd (dashboard_queries e uid d)) = committed d"
proof -
  obtain r1 d1 where q1: "pool_query e (SelectUserById uid) d = (r1, d1)"
    by (cases "pool_query e (SelectUserById uid) d")
  obtain r2 d2 where q2: "pool_query e (SelectSchedule uid) d1 = (r2, d2)"
    by (cases "pool_query e (SelectSchedule uid) d1")
  obtain r3 d3 where q3: "pool_query e (SelectStreak uid) d2 = (r3, d3)"
    by (cases "pool_query e (SelectStreak uid) d2")
  have c: "committed d1 = committed d" "committed d2 = committed d1" "committed d3 = committed d2"
    using pool_query_select_keeps [of e uid d] pool_query_select_keeps [of e uid d1]
      pool_query_select_keeps [of e uid d2] q1 q2 q3 by simp_all
  have l: "length (qlog d1) = Suc (length (qlog d))" "length (qlog d2) = Suc (Suc (length (qlog d)))"
    using pool_query_log [of e "SelectUserById uid" d] pool_query_log [of e "SelectSchedule uid" d1]
      q1 q2 by simp_all
  have s: "isl r1 = fails e (length (qlog d))" "isl r2 = fails e (Suc (length (qlog d)))"
    "isl r3 = fails e (Suc (Suc (length (qlog d))))"
    using pool_query_isl [of e "SelectUserById uid" d] pool_query_isl [of e "SelectSchedule uid" d1]
      pool_query_isl [of e "SelectStreak uid" d2] q1 q2 q3 l by simp_all
  obtain i where i: "i < 3" "fails e (length (qlog d) + i)" using assms by blast
  then consider "i = 0" | "i = 1" | "i = 2" by linarith
  then have "isl r1 \<or> isl r2 \<or> isl r3"
    using i(2) s by cases simp_all
  then show ?thesis using q1 q2 q3 c
    by (cases r1; cases r2; cases r3) (simp_all add: dashboard_queries_def)
qed

lemma get_dashboard_rejected:
  assumes "verifyToken e req = Inr user" "\<exists>i<3. fails e (length (qlog d) + i)"
  shows "fst (get_dashboard e time_key req d) = Inr (page (Send 500 ''Error loading dashboard.'')) \<and>
         committed (snd (get_dashboard e time_key req d)) = committed d"
proof -
  obtain r d1 where q: "dashboard_queries e (jid user) d = (r, d1)"
    by (cases "dashboard_queries e (jid user) d")
  have "isl r" "committed d1 = committed d"
    using dashboard_queries_rejected [OF assms(2), of "jid user"] q by simp_all
  then show ?thesis using assms(1) q
    by (cases r) (simp_all add: get_dashboard_def try_catch_def bind_def ret_def)
qed

lemma day_rank_other:
  "d \<notin> set [Some (JStr ''Monday''), Some (JStr ''Tuesday''), Some (JStr ''Wednesday''),
             Some (JStr ''Thursday''), Some (JStr ''Friday''), Some (JStr ''Saturday'')] \<Longrightarrow>
   day_rank d = 7"
  by (simp add: day_rank_def)

section \<open>The claims\<close>

text \<open>
  Claim C1, amended. When the token verifies, the client is checked out, the cleaned
  answer parses as an array of \<open>N\<close> entries none of which is \<^verbatim>\<open>null\<close>, and none of the
  \<open>N + 4\<close> statements of the transaction is rejected, the handler redirects to the
  dashboard and the committed rows of the user are exactly the rows of the entries, in
  array order: \<open>N\<close> rows, none of the earlier ones; every \<^verbatim>\<open>users\<close> row of that user
  holds the submitted \<^verbatim>\<open>dailytime\<close>; the statements sent are \<^verbatim>\<open>BEGIN\<close>, the
  \<^verbatim>\<open>DELETE\<close>, one \<^verbatim>\<open>INSERT\<close> per entry, the \<^verbatim>\<open>UPDATE\<close> and \<^verbatim>\<open>COMMIT\<close>.
\<close>

theorem post_form_replaces_schedule:
  assumes "verifyToken e req = Inr user"
    and "\<not> connect_fails e"
    and "generate e (form_prompt (body req)) = Some answer"
    and "json_parse e (clean answer) = Some (JArr items)"
    and "JNull \<notin> set items"
    and "\<forall>i < length items + 4. \<not> fails e (length (qlog d) + i)"
  shows "fst (post_form e req d) = Inr (page (Redirect ''/dashboard'')) \<and>
         schedule_of (jid user) (committed (snd (post_form e req d))) =
           map (item_row (jid user)) items \<and>
         length (schedule_of (jid user) (committed (snd (post_form e req d)))) = length items \<and>
         (\<forall>u \<in> set (users (committed (snd (post_form e req d)))).
            u_id u = jid user \<longrightarrow> u_daily_focus_hours u = body req ''dailytime'') \<and>
         sent d (snd (post_form e req d)) =
           [Begin, DeleteSchedule (jid user)] @ map (item_query (jid user)) items @
           [UpdateFocus (body req ''dailytime'') (jid user), Commit]"
proof -
  let ?uid = "jid user"
  let ?h = "body req ''dailytime''"
  let ?d0 = "d\<lparr>acquired := Suc (acquired d)\<rparr>"
  define d1 where "d1 = ?d0\<lparr>qlog := qlog ?d0 @ [Begin, DeleteSchedule ?uid] @
       map (item_query ?uid) items @ [UpdateFocus ?h ?uid, Commit],
     committed := replace_schedule ?uid items ?h (start_tables ?d0), txn := None\<rparr>"
  have acc: "\<forall>i < length items + 4. \<not> fails e (length (qlog ?d0) + i)"
    using assms(6) by simp
  have "form_transaction e ?uid (JArr items) ?h ?d0 = (Inr (), d1)"
    unfolding d1_def by (rule form_transaction_accepted [OF acc assms(5)]) simp
  then have "form_try e user req ?d0 = (Inr (page (Redirect ''/dashboard'')), d1)"
    using form_try_parsed [OF assms(3) assms(4), of user] by (simp add: bind_def ret_def)
  then have pf: "post_form e req d =
      (Inr (page (Redirect ''/dashboard'')), d1\<lparr>released := Suc (released d1)\<rparr>)"
    using post_form_passed [OF assms(1) assms(2), of d] tcf_returned by simp
  have rows: "schedule_of ?uid (committed d1) = map (item_row ?uid) items"
    by (simp add: d1_def schedule_of_def replace_schedule_def item_row_def comp_def)
  have hours: "\<forall>u \<in> set (users (committed d1)). u_id u = ?uid \<longrightarrow> u_daily_focus_hours u = ?h"
    by (auto simp: d1_def replace_schedule_def)
  have log: "sent d d1 = [Begin, DeleteSchedule ?uid] @ map (item_query ?uid) items @
           [UpdateFocus ?h ?uid, Commit]"
    by (simp add: d1_def sent_def)
  show ?thesis unfolding pf using rows hours log by (simp add: sent_def)
qed

text \<open>
  The scenario of the specification instantiates C1: one Monday entry replaces Ada's two
  rows and her focus hours become \<^verbatim>\<open>2\<close>.
\<close>

theorem post_form_replaces_schedule_witness:
  "verifyToken example_env example_request = Inr example_claims \<and>
   \<not> connect_fails example_env \<and>
   json_parse example_env (clean example_answer) = Some (JArr [example_entry]) \<and>
   fst (post_form example_env example_request example_db) = Inr (page (Redirect ''/dashboard'')) \<and>
   schedule_of 1 (committed (snd (post_form example_env example_request example_db))) =
     [\<lparr>s_day_of_week = Some (JStr ''Monday''), s_start_time = Some (JStr ''09:00''),
       s_end_time = Some (JStr ''11:00''), s_subject = Some (JStr ''Math''), s_user_id = 1\<rparr>] \<and>
   map u_daily_focus_hours
     (filter (\<lambda>u. u_id u = 1)
        (users (committed (snd (post_form example_env example_request example_db))))) =
     [Some ''2'']"
proof -
  have v: "verifyToken example_env example_request = Inr example_claims"
    by (rule verify_example)
  have c: "\<not> connect_fails example_env" by (simp add: example_env_def)
  have g: "generate example_env (form_prompt (body example_request)) = Some example_answer"
    by (simp add: example_env_def)
  have p: "json_parse example_env (clean example_answer) = Some (JArr [example_entry])"
    by (simp add: example_env_def clean_example example_parse_def)
  have n: "JNull \<notin> set [example_entry]" by (simp add: example_entry_def)
  have f: "\<forall>i < length [example_entry] + 4. \<not> fails example_env (length (qlog example_db) + i)"
    by (simp add: example_env_def)
  have r: "item_row 1 example_entry =
     \<lparr>s_day_of_week = Some (JStr ''Monday''), s_start_time = Some (JStr ''09:00''),
       s_end_time = Some (JStr ''11:00''), s_subject = Some (JStr ''Math''), s_user_id = 1\<rparr>"
    by (simp add: item_row_def entry_field_def example_entry_def)
  have b: "body example_request ''dailytime'' = Some ''2''"
    by (simp add: example_request_def)
  have hours: "map u_daily_focus_hours
     (filter (\<lambda>u. u_id u = 1)
        (users (committed (snd (post_form example_env example_request example_db))))) =
     [Some ''2'']"
    by (simp add: example_run replace_schedule_def example_tables_def)
  show ?thesis
    using post_form_replaces_schedule [OF v c g p n f] v c p r hours
    by (simp add: example_claims_def)
qed

text \<open>
  Claim C1 as stated fails for the answer \<^verbatim>\<open>[null]\<close>: it parses as an array of one entry
  and every statement the handler sends is accepted, but reading \<^verbatim>\<open>item.dayOfWeek\<close>
  throws before any \<^verbatim>\<open>INSERT\<close> is sent; the handler answers 500 and the two earlier
  rows of the user stay.
\<close>

theorem post_form_null_entry_counterexample:
  "verifyToken null_entry_env example_request = Inr example_claims \<and>
   json_parse null_entry_env (clean ''[null]'') = Some (JArr [JNull]) \<and>
   \<not> fails null_entry_env 0 \<and> \<not> fails null_entry_env 1 \<and> \<not> fails null_entry_env 2 \<and>
   sent example_db (snd (post_form null_entry_env example_request example_db)) =
     [Begin, DeleteSchedule 1, Rollback] \<and>
   fst (post_form null_entry_env example_request example_db) =
     Inr (page (Send 500 ''An error occurred while generating the schedule.'')) \<and>
   schedule_of 1 (committed (snd (post_form null_entry_env example_request example_db))) =
     schedule_of 1 (committed example_db) \<and>
   length (schedule_of 1 (committed (snd (post_form null_entry_env example_request example_db)))) = 2 \<and>
   length [JNull] = 1"
  by (simp add: null_run)
     (simp add: null_entry_env_def example_defs clean_null verifyToken_def no_token_def
        jwt_verify_def sent_def schedule_of_def example_tables_def)




text \<open>
  Claim C3, amended. When the cleaned answer is not JSON, or parses to \<^verbatim>\<open>null\<close>, a
  boolean, a number or an object, the handler throws inside the \<^verbatim>\<open>try\<close> block: the
  committed tables stay as they were, the reply is not the redirect, and the last
  statement sent is \<^verbatim>\<open>ROLLBACK\<close>; whenever that \<^verbatim>\<open>ROLLBACK\<close> (the statement numbered
  \<open>length (qlog d') - 1\<close> in the final state \<open>d'\<close>) is accepted, no transaction stays
  open and the reply is the 500 message.
\<close>

theorem post_form_rejects_unparsable:
  assumes "verifyToken e req = Inr user"
    and "\<not> connect_fails e"
    and "generate e (form_prompt (body req)) = Some answer"
    and "not_iterable (json_parse e (clean answer))"
  shows "committed (snd (post_form e req d)) = committed d \<and>
         last (qlog (snd (post_form e req d))) = Rollback \<and>
         fst (post_form e req d) \<noteq> Inr (page (Redirect ''/dashboard'')) \<and>
         (\<not> fails e (length (qlog (snd (post_form e req d))) - 1) \<longrightarrow>
            txn (snd (post_form e req d)) = None \<and>
            fst (post_form e req d) =
              Inr (page (Send 500 ''An error occurred while generating the schedule.'')))"
proof -
  let ?d0 = "d\<lparr>acquired := Suc (acquired d)\<rparr>"
  obtain r1 d1 where t: "form_try e user req ?d0 = (r1, d1)"
    by (cases "form_try e user req ?d0")
  have "isl r1" using form_try_not_iterable [OF assms(3) assms(4), of user ?d0] t by simp
  then obtain err where "r1 = Inl err" by (cases r1) simp_all
  with t have th: "form_try e user req ?d0 = (Inl err, d1)" by simp
  have k: "committed (snd (post_form e req d)) = committed d"
    "last (qlog (snd (post_form e req d))) = Rollback"
    "fst (post_form e req d) \<noteq> Inr (page (Redirect ''/dashboard''))"
    using post_form_thrown_keeps [OF assms(1) assms(2) th]
    by (auto simp: page_def split: if_splits)
  have r: "qlog (snd (post_form e req d)) = qlog d1 @ [Rollback]"
    "\<not> fails e (length (qlog d1)) \<longrightarrow>
       txn (snd (post_form e req d)) = None \<and>
       fst (post_form e req d) =
         Inr (page (Send 500 ''An error occurred while generating the schedule.''))"
    using post_form_thrown_rollback [OF assms(1) assms(2) th] by simp_all
  have n: "length (qlog (snd (post_form e req d))) - 1 = length (qlog d1)"
    using last_statement_number [OF r(1)] .
  show ?thesis using k r(2) unfolding n by simp
qed

text \<open>
  C3 at the answer \<^verbatim>\<open>{}\<close> with \<^verbatim>\<open>BEGIN\<close> rejected and the \<^verbatim>\<open>ROLLBACK\<close> accepted.
\<close>

theorem post_form_rejects_unparsable_witness:
  "verifyToken rejected_begin_env example_request = Inr example_claims \<and>
   json_parse rejected_begin_env (clean ''{}'') = Some (JObj []) \<and>
   fails rejected_begin_env 0 \<and> \<not> fails rejected_begin_env 1 \<and>
   sent example_db (snd (post_form rejected_begin_env example_request example_db)) =
     [Begin, Rollback] \<and>
   committed (snd (post_form rejected_begin_env example_request example_db)) =
     committed example_db \<and>
   txn (snd (post_form rejected_begin_env example_request example_db)) = None \<and>
   fst (post_form rejected_begin_env example_request example_db) =
     Inr (page (Send 500 ''An error occurred while generating the schedule.''))"
proof -
  have v: "verifyToken rejected_begin_env example_request = Inr example_claims"
    using verifyToken_cong [of example_request example_request rejected_begin_env example_env]
      verify_example
    by (simp add: rejected_begin_env_def object_answer_env_def)
  have c: "\<not> connect_fails rejected_begin_env"
    by (simp add: rejected_begin_env_def object_answer_env_def example_env_def)
  have g: "generate rejected_begin_env (form_prompt (body example_request)) = Some ''{}''"
    by (simp add: rejected_begin_env_def object_answer_env_def example_env_def)
  have p: "json_parse rejected_begin_env (clean ''{}'') = Some (JObj [])"
    by (simp add: rejected_begin_env_def object_answer_env_def example_env_def clean_braces
        example_parse_def example_array_text_def)
  have n: "not_iterable (json_parse rejected_begin_env (clean ''{}''))"
    by (simp add: p)
  have f: "fails rejected_begin_env 0" "\<not> fails rejected_begin_env 1"
    by (simp_all add: rejected_begin_env_def object_answer_env_def example_env_def)
  have l: "sent example_db (snd (post_form rejected_begin_env example_request example_db)) =
     [Begin, Rollback]"
    "length (qlog (snd (post_form rejected_begin_env example_request example_db))) - 1 = 1"
    unfolding rejected_begin_run by (simp_all add: sent_def example_db_def)
  show ?thesis
    using post_form_rejects_unparsable [OF v c g n, of example_db] v p f l
    by simp
qed

text \<open>
  Claim C3 as stated fails for an answer that is valid JSON but a string: the answer
  consisting of two double quotes parses to the empty string, the loop runs zero
  times, and the handler commits the \<^verbatim>\<open>DELETE\<close> and the \<^verbatim>\<open>UPDATE\<close> and redirects to the
  dashboard. Ada's two rows are gone.
\<close>

theorem post_form_string_answer_counterexample:
  \<open>verifyToken string_answer_env example_request = Inr example_claims \<and>
   generate string_answer_env (form_prompt (body example_request)) = Some ''""'' \<and>
   json_parse string_answer_env (clean ''""'') = Some (JStr []) \<and>
   schedule_of 1 (committed example_db) \<noteq> [] \<and>
   fst (post_form string_answer_env example_request example_db) =
     Inr (page (Redirect ''/dashboard'')) \<and>
   schedule_of 1 (committed (snd (post_form string_answer_env example_request example_db))) = [] \<and>
   sent example_db (snd (post_form string_answer_env example_request example_db)) =
     [Begin, DeleteSchedule 1, UpdateFocus (Some ''2'') 1, Commit]\<close>
  by (simp add: string_run)
     (simp add: string_answer_env_def example_defs clean_quotes verifyToken_def no_token_def
        jwt_verify_def sent_def schedule_of_def example_tables_def replace_schedule_def)

text \<open>
  Claim C4. Every run of the POST /form handler gives back the client it checked out:
  whatever the token, the model, the parser and the database do, the pool has handed
  out one client exactly when the token verified and \<^verbatim>\<open>db.connect()\<close> succeeded, and
  it has then taken one back. This covers the exit after \<^verbatim>\<open>COMMIT\<close>, the exit through
  the \<^verbatim>\<open>catch\<close> block after a failed generation or statement, and the exit where the
  \<^verbatim>\<open>ROLLBACK\<close> of the \<^verbatim>\<open>catch\<close> block is itself rejected and the exception leaves the
  handler.
\<close>

theorem post_form_releases:
  "acquired (snd (post_form e req d)) =
     acquired d + (if isl (verifyToken e req) \<or> connect_fails e then 0 else 1) \<and>
   released (snd (post_form e req d)) =
     released d + (if isl (verifyToken e req) \<or> connect_fails e then 0 else 1)"
proof (cases "verifyToken e req")
  case (Inl r)
  then show ?thesis by (simp add: post_form_def ret_def)
next
  case (Inr u)
  show ?thesis
  proof (cases "connect_fails e")
    case True
    with Inr show ?thesis by (simp add: post_form_def bind_def pool_connect_def)
  next
    case False
    with Inr tcf_pool [of e u req "d\<lparr>acquired := Suc (acquired d)\<rparr>"] show ?thesis
      by (simp add: post_form_def bind_def pool_connect_def)
  qed
qed

text \<open>
  C4 on the path where the \<^verbatim>\<open>INSERT\<close> and then the \<^verbatim>\<open>ROLLBACK\<close> are rejected: the
  exception leaves the handler and the client is back in the pool.
\<close>

theorem post_form_releases_witness:
  "fst (post_form broken_rollback_env example_request example_db) = Inl DbError \<and>
   acquired (snd (post_form broken_rollback_env example_request example_db)) =
     acquired example_db + 1 \<and>
   released (snd (post_form broken_rollback_env example_request example_db)) =
     released example_db + 1"
proof -
  have v: "verifyToken broken_rollback_env example_request = Inr example_claims"
    using verifyToken_cong [of example_request example_request broken_rollback_env example_env]
      verify_example
    by (simp add: broken_rollback_env_def)
  have c: "\<not> connect_fails broken_rollback_env"
    by (simp add: broken_rollback_env_def example_env_def)
  have r: "fst (post_form broken_rollback_env example_request example_db) = Inl DbError"
    by (simp add: broken_rollback_run)
  show ?thesis
    using post_form_releases [of broken_rollback_env example_request example_db] v c r
    by simp
qed

text \<open>
  Claim C5. If the request carries no \<^verbatim>\<open>token\<close> cookie, or a cookie that is no token,
  or a token signed with another key than the server's secret, or a token that
  \<^verbatim>\<open>jwt.sign\<close> issued 86400 seconds or more before the current time, then
  \<^verbatim>\<open>verifyToken\<close> answers with a redirect to \<^verbatim>\<open>/\<close>, and GET /form, GET /dashboard and
  POST /form return that answer with the database state untouched: no statement is
  sent and no client is checked out, so no handler body ran.
\<close>

theorem protected_routes_reject_bad_token:
  assumes "cookie_token req = None \<or>
           (\<exists>s. cookie_token req = Some (Opaque s)) \<or>
           (\<exists>k c. cookie_token req = Some (Signed k c) \<and> jwt_secret e \<noteq> Some k) \<or>
           (\<exists>uid nm secret t0 tok.
              jwt_sign uid nm secret t0 = Inr tok \<and> cookie_token req = Some tok \<and>
              t0 + 86400 \<le> now e)"
  shows "\<exists>resp. verifyToken e req = Inl resp \<and> reply resp = Redirect ''/'' \<and>
           get_form e req d = (Inr resp, d) \<and>
           get_dashboard e time_key req d = (Inr resp, d) \<and>
           post_form e req d = (Inr resp, d)"
proof -
  have "\<exists>resp. verifyToken e req = Inl resp \<and> reply resp = Redirect ''/''"
    using assms
  proof (elim disjE exE conjE)
    assume "cookie_token req = None"
    then show ?thesis by (simp add: verifyToken_def no_token_def page_def)
  next
    fix s assume "cookie_token req = Some (Opaque s)"
    then show ?thesis
      by (simp add: verifyToken_def no_token_def page_def jwt_verify_def split: option.splits)
  next
    fix k c assume "cookie_token req = Some (Signed k c)" "jwt_secret e \<noteq> Some k"
    then show ?thesis
      by (auto simp: verifyToken_def no_token_def page_def jwt_verify_def split: option.splits)
  next
    fix uid nm secret t0 tok
    assume s: "jwt_sign uid nm secret t0 = Inr tok" and c: "cookie_token req = Some tok"
      and t: "t0 + 86400 \<le> now e"
    have "isl (jwt_verify tok (jwt_secret e) (now e))"
      using jwt_verify_expired [OF s t] .
    from verifyToken_rejects [OF c this] show ?thesis by (auto simp: page_def)
  qed
  then show ?thesis using protected_rejected by blast
qed

text \<open>
  C5 for Ada's token, issued at 1000, presented at 90000.
\<close>

theorem protected_routes_reject_bad_token_witness:
  "jwt_sign 1 ''Ada'' (Some ''s3cret'') 1000 = Inr example_token \<and>
   cookie_token example_request = Some example_token \<and>
   (1000::nat) + 86400 \<le> now late_env \<and>
   verifyToken late_env example_request =
     Inl \<lparr>cookies = [ClearCookie ''token''], reply = Redirect ''/''\<rparr> \<and>
   get_form late_env example_request example_db =
     (Inr \<lparr>cookies = [ClearCookie ''token''], reply = Redirect ''/''\<rparr>, example_db) \<and>
   get_dashboard late_env example_time_key example_request example_db =
     (Inr \<lparr>cookies = [ClearCookie ''token''], reply = Redirect ''/''\<rparr>, example_db) \<and>
   post_form late_env example_request example_db =
     (Inr \<lparr>cookies = [ClearCookie ''token''], reply = Redirect ''/''\<rparr>, example_db)"
proof -
  have s: "jwt_sign 1 ''Ada'' (Some ''s3cret'') 1000 = Inr example_token"
    by (simp add: jwt_sign_def example_token_def example_claims_def)
  have c: "cookie_token example_request = Some example_token"
    by (simp add: example_request_def)
  have t: "(1000::nat) + 86400 \<le> now late_env"
    by (simp add: late_env_def example_env_def)
  have v: "verifyToken late_env example_request =
     Inl \<lparr>cookies = [ClearCookie ''token''], reply = Redirect ''/''\<rparr>"
    by (simp add: verifyToken_def no_token_def jwt_verify_def late_env_def example_env_def
        example_request_def example_token_def example_claims_def)
  have h: "cookie_token example_request = None \<or>
           (\<exists>s. cookie_token example_request = Some (Opaque s)) \<or>
           (\<exists>k c. cookie_token example_request = Some (Signed k c) \<and> jwt_secret late_env \<noteq> Some k) \<or>
           (\<exists>uid nm secret t0 tok.
              jwt_sign uid nm secret t0 = Inr tok \<and> cookie_token example_request = Some tok \<and>
              t0 + 86400 \<le> now late_env)"
    using s c t by blast
  show ?thesis
    using protected_routes_reject_bad_token [OF h, of example_db example_time_key] s c t v
    by auto
qed

text \<open>
  Claim C6, amended. For a registration whose email is already stored, no table
  changes, no cookie is set and the reply is the form with an error message; the
  message is the duplicate-email one when the three fields are non-empty and the
  lookup is accepted. For a registration with three non-empty fields and an email not
  yet stored, when the lookup and the \<^verbatim>\<open>INSERT\<close> are accepted and the secret is set,
  one row is appended holding the bcrypt digest (cost 10) of the password, which
  \<^verbatim>\<open>bcrypt.compare\<close> accepts and which is not the password text, and the reply sets a
  token for the new id and name, stamped with the current time and expiring 86400
  seconds later, and redirects to \<^verbatim>\<open>/form\<close>.
\<close>

theorem post_register_duplicate_or_stored:
  "(body req ''email'' = Some em \<and> (\<exists>u \<in> set (users (committed d)). u_email u = em) \<longrightarrow>
      committed (snd (post_register e req d)) = committed d \<and>
      (\<exists>msg. fst (post_register e req d) = Inr (page (RenderAuth (Some msg)))) \<and>
      (\<not> falsy (body req ''name'') \<and> em \<noteq> [] \<and> \<not> falsy (body req ''password'') \<and>
       \<not> fails e (length (qlog d)) \<longrightarrow>
       fst (post_register e req d) =
         Inr (page (RenderAuth (Some ''User with this email already exists.''))))) \<and>
   (body req ''name'' = Some nm \<and> body req ''email'' = Some em \<and>
    body req ''password'' = Some pw \<and> nm \<noteq> [] \<and> em \<noteq> [] \<and> pw \<noteq> [] \<and>
    \<not> (\<exists>u \<in> set (users (committed d)). u_email u = em) \<and>
    \<not> fails e (length (qlog d)) \<and> \<not> fails e (Suc (length (qlog d))) \<and>
    jwt_secret e = Some k \<and> k \<noteq> [] \<longrightarrow>
      users (committed (snd (post_register e req d))) =
        users (committed d) @
        [\<lparr>u_id = users_id_seq (committed d), u_name = nm, u_email = em,
          u_password = Bcrypt 10 (bcrypt_salt e) pw, u_daily_focus_hours = None\<rparr>] \<and>
      bcrypt_compare pw (u_password (last (users (committed (snd (post_register e req d)))))) \<and>
      u_password (last (users (committed (snd (post_register e req d))))) \<noteq> NotAHash pw \<and>
      fst (post_register e req d) =
        Inr \<lparr>cookies = [SetCookie ''token''
                (Signed k \<lparr>jid = users_id_seq (committed d), jname = nm, iat = now e,
                           exp = Some (now e + 86400)\<rparr>)],
             reply = Redirect ''/form''\<rparr>)"
proof (rule conjI)
  show "body req ''email'' = Some em \<and> (\<exists>u \<in> set (users (committed d)). u_email u = em) \<longrightarrow>
      committed (snd (post_register e req d)) = committed d \<and>
      (\<exists>msg. fst (post_register e req d) = Inr (page (RenderAuth (Some msg)))) \<and>
      (\<not> falsy (body req ''name'') \<and> em \<noteq> [] \<and> \<not> falsy (body req ''password'') \<and>
       \<not> fails e (length (qlog d)) \<longrightarrow>
       fst (post_register e req d) =
         Inr (page (RenderAuth (Some ''User with this email already exists.''))))"
    using post_register_duplicate [of req em d e] by blast
next
  show "body req ''name'' = Some nm \<and> body req ''email'' = Some em \<and>
    body req ''password'' = Some pw \<and> nm \<noteq> [] \<and> em \<noteq> [] \<and> pw \<noteq> [] \<and>
    \<not> (\<exists>u \<in> set (users (committed d)). u_email u = em) \<and>
    \<not> fails e (length (qlog d)) \<and> \<not> fails e (Suc (length (qlog d))) \<and>
    jwt_secret e = Some k \<and> k \<noteq> [] \<longrightarrow>
      users (committed (snd (post_register e req d))) =
        users (committed d) @
        [\<lparr>u_id = users_id_seq (committed d), u_name = nm, u_email = em,
          u_password = Bcrypt 10 (bcrypt_salt e) pw, u_daily_focus_hours = None\<rparr>] \<and>
      bcrypt_compare pw (u_password (last (users (committed (snd (post_register e req d)))))) \<and>
      u_password (last (users (committed (snd (post_register e req d))))) \<noteq> NotAHash pw \<and>
      fst (post_register e req d) =
        Inr \<lparr>cookies = [SetCookie ''token''
                (Signed k \<lparr>jid = users_id_seq (committed d), jname = nm, iat = now e,
                           exp = Some (now e + 86400)\<rparr>)],
             reply = Redirect ''/form''\<rparr>"
  proof (rule impI)
    assume b: "body req ''name'' = Some nm \<and> body req ''email'' = Some em \<and>
      body req ''password'' = Some pw \<and> nm \<noteq> [] \<and> em \<noteq> [] \<and> pw \<noteq> [] \<and>
      \<not> (\<exists>u \<in> set (users (committed d)). u_email u = em) \<and>
      \<not> fails e (length (qlog d)) \<and> \<not> fails e (Suc (length (qlog d))) \<and>
      jwt_secret e = Some k \<and> k \<noteq> []"
    from post_register_fresh [of req nm em pw d e k] b
    have r: "users (committed (snd (post_register e req d))) =
             users (committed d) @
             [\<lparr>u_id = users_id_seq (committed d), u_name = nm, u_email = em,
               u_password = bcrypt_hash pw 10 (bcrypt_salt e), u_daily_focus_hours = None\<rparr>]"
      and c: "fst (post_register e req d) =
             Inr \<lparr>cookies = [SetCookie ''token''
                     (Signed k \<lparr>jid = users_id_seq (committed d), jname = nm, iat = now e,
                                exp = Some (now e + 86400)\<rparr>)],
                  reply = Redirect ''/form''\<rparr>"
      by simp_all
    show "users (committed (snd (post_register e req d))) =
        users (committed d) @
        [\<lparr>u_id = users_id_seq (committed d), u_name = nm, u_email = em,
          u_password = Bcrypt 10 (bcrypt_salt e) pw, u_daily_focus_hours = None\<rparr>] \<and>
      bcrypt_compare pw (u_password (last (users (committed (snd (post_register e req d)))))) \<and>
      u_password (last (users (committed (snd (post_register e req d))))) \<noteq> NotAHash pw \<and>
      fst (post_register e req d) =
        Inr \<lparr>cookies = [SetCookie ''token''
                (Signed k \<lparr>jid = users_id_seq (committed d), jname = nm, iat = now e,
                           exp = Some (now e + 86400)\<rparr>)],
             reply = Redirect ''/form''\<rparr>"
      unfolding c r by (simp add: bcrypt_hash_def)
  qed
qed

text \<open>
  C6 for a second registration of Ada's address and for a first one of Eve's.
\<close>

theorem post_register_duplicate_or_stored_witness:
  "body duplicate_register_request ''email'' = Some ''ada@example.org'' \<and>
   ''ada@example.org'' \<in> set (map u_email (users (committed example_db))) \<and>
   committed (snd (post_register example_env duplicate_register_request example_db)) =
     committed example_db \<and>
   fst (post_register example_env duplicate_register_request example_db) =
     Inr (page (RenderAuth (Some ''User with this email already exists.''))) \<and>
   body fresh_register_request ''email'' = Some ''eve@example.org'' \<and>
   ''eve@example.org'' \<notin> set (map u_email (users (committed example_db))) \<and>
   users (committed (snd (post_register example_env fresh_register_request example_db))) =
     users (committed example_db) @
     [\<lparr>u_id = 3, u_name = ''Eve'', u_email = ''eve@example.org'',
       u_password = Bcrypt 10 ''salt'' ''pw3'', u_daily_focus_hours = None\<rparr>] \<and>
   fst (post_register example_env fresh_register_request example_db) =
     Inr \<lparr>cookies = [SetCookie ''token''
             (Signed ''s3cret'' \<lparr>jid = 3, jname = ''Eve'', iat = 2000, exp = Some 88400\<rparr>)],
          reply = Redirect ''/form''\<rparr>"
proof -
  have d: "body duplicate_register_request ''email'' = Some ''ada@example.org''"
    "\<exists>u \<in> set (users (committed example_db)). u_email u = ''ada@example.org''"
    "\<not> falsy (body duplicate_register_request ''name'')"
    "\<not> falsy (body duplicate_register_request ''password'')"
    "\<not> fails example_env (length (qlog example_db))"
    by (simp_all add: duplicate_register_request_def example_db_def example_tables_def falsy_def
        example_env_def)
  have f: "body fresh_register_request ''name'' = Some ''Eve''"
    "body fresh_register_request ''email'' = Some ''eve@example.org''"
    "body fresh_register_request ''password'' = Some ''pw3''"
    "\<not> (\<exists>u \<in> set (users (committed example_db)). u_email u = ''eve@example.org'')"
    "\<not> fails example_env (Suc (length (qlog example_db)))"
    "jwt_secret example_env = Some ''s3cret''"
    by (simp_all add: fresh_register_request_def example_db_def example_tables_def example_env_def)
  have m: "''ada@example.org'' \<in> set (map u_email (users (committed example_db)))"
    "''eve@example.org'' \<notin> set (map u_email (users (committed example_db)))"
    "users_id_seq (committed example_db) = 3" "now example_env = 2000"
    "bcrypt_salt example_env = ''salt''"
    by (simp_all add: example_db_def example_tables_def example_env_def)
  have A: "committed (snd (post_register example_env duplicate_register_request example_db)) =
     committed example_db \<and>
   fst (post_register example_env duplicate_register_request example_db) =
     Inr (page (RenderAuth (Some ''User with this email already exists.'')))"
    using post_register_duplicate_or_stored
      [of duplicate_register_request "''ada@example.org''" example_db example_env] d
    by simp
  have B: "users (committed (snd (post_register example_env fresh_register_request example_db))) =
     users (committed example_db) @
     [\<lparr>u_id = 3, u_name = ''Eve'', u_email = ''eve@example.org'',
       u_password = Bcrypt 10 ''salt'' ''pw3'', u_daily_focus_hours = None\<rparr>] \<and>
   fst (post_register example_env fresh_register_request example_db) =
     Inr \<lparr>cookies = [SetCookie ''token''
             (Signed ''s3cret'' \<lparr>jid = 3, jname = ''Eve'', iat = 2000, exp = Some 88400\<rparr>)],
          reply = Redirect ''/form''\<rparr>"
    using post_register_duplicate_or_stored
      [of fresh_register_request "''eve@example.org''" example_db example_env "''Eve''"
          "''pw3''" "''s3cret''"] f d(5) m
    by simp
  show ?thesis using A B d(1) f(2) m(1,2) by simp
qed

text \<open>
  Claim C6 as stated fails for a form without a name: the email is not stored yet, but
  the guard on the three fields answers first; no row is stored and no token issued.
\<close>

theorem post_register_missing_name_counterexample:
  "body nameless_register_request ''email'' = Some ''eve@example.org'' \<and>
   ''eve@example.org'' \<notin> set (map u_email (users (committed example_db))) \<and>
   fst (post_register example_env nameless_register_request example_db) =
     Inr \<lparr>cookies = [], reply = RenderAuth (Some ''All fields are required.'')\<rparr> \<and>
   users (committed (snd (post_register example_env nameless_register_request example_db))) =
     users (committed example_db)"
  by (simp add: nameless_run)
     (simp add: nameless_register_request_def example_db_def example_tables_def page_def)

text \<open>
  Claim C7, amended. When the token verifies, the tables are unchanged. If one of the
  three reads is rejected, the reply is the 500 message of the handler. If all three
  are accepted: with no \<^verbatim>\<open>users\<close> row for the token's id the reply is the redirect to
  \<^verbatim>\<open>/\<close>; otherwise the page shows the name of the first such row, the schedule rows of
  that user (as a multiset exactly those stored) sorted by the rank of the day and
  then by the start time, and zero for both streak fields when no streak row exists.
  Monday to Saturday rank 1 to 6, and every other value of the column ranks 7.
\<close>

theorem get_dashboard_read_model:
  assumes "verifyToken e req = Inr user"
  shows "committed (snd (get_dashboard e time_key req d)) = committed d \<and>
         ((\<exists>i<3. fails e (length (qlog d) + i)) \<longrightarrow>
            fst (get_dashboard e time_key req d) =
              Inr (page (Send 500 ''Error loading dashboard.''))) \<and>
         ((\<forall>i<3. \<not> fails e (length (qlog d) + i)) \<longrightarrow>
            (filter (\<lambda>u. u_id u = jid user) (users (committed d)) = [] \<longrightarrow>
               fst (get_dashboard e time_key req d) = Inr (page (Redirect ''/''))) \<and>
            (filter (\<lambda>u. u_id u = jid user) (users (committed d)) \<noteq> [] \<longrightarrow>
               (\<exists>v. fst (get_dashboard e time_key req d) = Inr (page (RenderIndex v)) \<and>
                  v_name v = u_name (hd (filter (\<lambda>u. u_id u = jid user) (users (committed d)))) \<and>
                  mset (v_scheduleItems v) = mset (schedule_of (jid user) (committed d)) \<and>
                  sorted (map (schedule_key time_key) (v_scheduleItems v)) \<and>
                  (filter (\<lambda>k. k_user_id k = jid user) (user_streaks (committed d)) = [] \<longrightarrow>
                     v_streak_count v = 0 \<and> v_longest_streak v = 0)))) \<and>
         map day_rank
           [Some (JStr ''Monday''), Some (JStr ''Tuesday''), Some (JStr ''Wednesday''),
            Some (JStr ''Thursday''), Some (JStr ''Friday''), Some (JStr ''Saturday'')] =
           [1, 2, 3, 4, 5, 6] \<and>
         (\<forall>day. day \<notin> set [Some (JStr ''Monday''), Some (JStr ''Tuesday''),
                              Some (JStr ''Wednesday''), Some (JStr ''Thursday''),
                              Some (JStr ''Friday''), Some (JStr ''Saturday'')] \<longrightarrow>
                day_rank day = 7)"
proof -
  let ?us = "filter (\<lambda>u. u_id u = jid user) (users (committed d))"
  let ?ur = "UserRows ?us"
  let ?sr = "ScheduleRows (filter (\<lambda>r. s_user_id r = jid user) (schedule_items (committed d)))"
  let ?kr = "StreakRows (filter (\<lambda>k. k_user_id k = jid user) (user_streaks (committed d)))"
  let ?d1 = "d\<lparr>qlog := qlog d @ [SelectUserById (jid user), SelectSchedule (jid user),
                                   SelectStreak (jid user)]\<rparr>"
  have days: "map day_rank
           [Some (JStr ''Monday''), Some (JStr ''Tuesday''), Some (JStr ''Wednesday''),
            Some (JStr ''Thursday''), Some (JStr ''Friday''), Some (JStr ''Saturday'')] =
           [1, 2, 3, 4, 5, 6]"
    by (simp add: day_rank_def)
  have other: "\<forall>day. day \<notin> set [Some (JStr ''Monday''), Some (JStr ''Tuesday''),
                              Some (JStr ''Wednesday''), Some (JStr ''Thursday''),
                              Some (JStr ''Friday''), Some (JStr ''Saturday'')] \<longrightarrow>
                day_rank day = 7"
    using day_rank_other by blast
  have c1: "committed (snd (get_dashboard e time_key req d)) = committed d"
  proof (cases "\<exists>i<3. fails e (length (qlog d) + i)")
    case True
    from get_dashboard_rejected [OF assms True, of time_key] show ?thesis by simp
  next
    case False
    then have acc: "\<forall>i<3. \<not> fails e (length (qlog d) + i)" by simp
    have q: "dashboard_queries e (jid user) d = (Inr (?ur, ?sr, ?kr), ?d1)"
      by (rule dashboard_queries_accepted [OF acc])
    show ?thesis using assms q
      by (cases ?us) (simp_all add: get_dashboard_def try_catch_def bind_def ret_def)
  qed
  have c2: "(\<exists>i<3. fails e (length (qlog d) + i)) \<longrightarrow>
            fst (get_dashboard e time_key req d) =
              Inr (page (Send 500 ''Error loading dashboard.''))"
    using get_dashboard_rejected [OF assms, of d time_key] by blast
  have c3: "(\<forall>i<3. \<not> fails e (length (qlog d) + i)) \<longrightarrow>
            (filter (\<lambda>u. u_id u = jid user) (users (committed d)) = [] \<longrightarrow>
               fst (get_dashboard e time_key req d) = Inr (page (Redirect ''/''))) \<and>
            (filter (\<lambda>u. u_id u = jid user) (users (committed d)) \<noteq> [] \<longrightarrow>
               (\<exists>v. fst (get_dashboard e time_key req d) = Inr (page (RenderIndex v)) \<and>
                  v_name v = u_name (hd (filter (\<lambda>u. u_id u = jid user) (users (committed d)))) \<and>
                  mset (v_scheduleItems v) = mset (schedule_of (jid user) (committed d)) \<and>
                  sorted (map (schedule_key time_key) (v_scheduleItems v)) \<and>
                  (filter (\<lambda>k. k_user_id k = jid user) (user_streaks (committed d)) = [] \<longrightarrow>
                     v_streak_count v = 0 \<and> v_longest_streak v = 0)))"
  proof (rule impI)
    assume acc: "\<forall>i<3. \<not> fails e (length (qlog d) + i)"
    have q: "dashboard_queries e (jid user) d = (Inr (?ur, ?sr, ?kr), ?d1)"
      by (rule dashboard_queries_accepted [OF acc])
    show "(?us = [] \<longrightarrow>
               fst (get_dashboard e time_key req d) = Inr (page (Redirect ''/''))) \<and>
            (?us \<noteq> [] \<longrightarrow>
               (\<exists>v. fst (get_dashboard e time_key req d) = Inr (page (RenderIndex v)) \<and>
                  v_name v = u_name (hd ?us) \<and>
                  mset (v_scheduleItems v) = mset (schedule_of (jid user) (committed d)) \<and>
                  sorted (map (schedule_key time_key) (v_scheduleItems v)) \<and>
                  (filter (\<lambda>k. k_user_id k = jid user) (user_streaks (committed d)) = [] \<longrightarrow>
                     v_streak_count v = 0 \<and> v_longest_streak v = 0)))"
    proof (cases ?us)
      case Nil
      then have "get_dashboard e time_key req d = (Inr (page (Redirect ''/'')), ?d1)"
        using assms q by (simp add: get_dashboard_def try_catch_def bind_def ret_def)
      then show ?thesis using Nil by simp
    next
      case (Cons userData others)
      let ?v = "dashboard_view time_key userData ?sr ?kr"
      have g: "get_dashboard e time_key req d = (Inr (page (RenderIndex ?v)), ?d1)"
        using assms q Cons by (simp add: get_dashboard_def try_catch_def bind_def ret_def)
      have v: "v_name ?v = u_name (hd ?us) \<and>
         mset (v_scheduleItems ?v) = mset (schedule_of (jid user) (committed d)) \<and>
         sorted (map (schedule_key time_key) (v_scheduleItems ?v)) \<and>
         (filter (\<lambda>k. k_user_id k = jid user) (user_streaks (committed d)) = [] \<longrightarrow>
            v_streak_count ?v = 0 \<and> v_longest_streak ?v = 0)"
        using Cons order_schedule_sorted [of time_key "schedule_of (jid user) (committed d)"]
        by (simp add: dashboard_view_def schedule_of_def)
      have "\<exists>w. fst (get_dashboard e time_key req d) = Inr (page (RenderIndex w)) \<and>
                  v_name w = u_name (hd ?us) \<and>
                  mset (v_scheduleItems w) = mset (schedule_of (jid user) (committed d)) \<and>
                  sorted (map (schedule_key time_key) (v_scheduleItems w)) \<and>
                  (filter (\<lambda>k. k_user_id k = jid user) (user_streaks (committed d)) = [] \<longrightarrow>
                     v_streak_count w = 0 \<and> v_longest_streak w = 0)"
        using g v by (intro exI [of _ ?v]) simp
      then show ?thesis using Cons by simp
    qed
  qed
  show ?thesis
    by (rule conjI [OF c1 conjI [OF c2 conjI [OF c3 conjI [OF days other]]]])
qed

text \<open>
  C7 for Ada: her Tuesday row was stored first and is shown second; with the first read
  rejected her request gets the 500 message.
\<close>

theorem get_dashboard_read_model_witness:
  "verifyToken example_env example_request = Inr example_claims \<and>
   filter (\<lambda>u. u_id u = 1) (users (committed example_db)) \<noteq> [] \<and>
   filter (\<lambda>k. k_user_id k = 1) (user_streaks (committed example_db)) = [] \<and>
   fst (get_dashboard example_env example_time_key example_request example_db) =
     Inr (page (RenderIndex
       \<lparr>v_name = ''Ada'',
        v_scheduleItems =
          [\<lparr>s_day_of_week = Some (JStr ''Monday''), s_start_time = Some (JStr ''09:00''),
            s_end_time = Some (JStr ''10:00''), s_subject = Some (JStr ''History''),
            s_user_id = 1\<rparr>,
           \<lparr>s_day_of_week = Some (JStr ''Tuesday''), s_start_time = Some (JStr ''14:00''),
            s_end_time = Some (JStr ''15:00''), s_subject = Some (JStr ''Physics''),
            s_user_id = 1\<rparr>],
        v_focusedTime = ''N/A'', v_streak_count = 0, v_longest_streak = 0,
        v_insight = ''Planning is the first step to success!''\<rparr>)) \<and>
   sorted (map (schedule_key example_time_key)
     (case reply (projr (fst (get_dashboard example_env example_time_key example_request example_db))) of
        RenderIndex v \<Rightarrow> v_scheduleItems v | r \<Rightarrow> [])) \<and>
   fails failing_select_env (length (qlog example_db) + 0) \<and>
   fst (get_dashboard failing_select_env example_time_key example_request example_db) =
     Inr (page (Send 500 ''Error loading dashboard.''))"
proof -
  have fv: "verifyToken failing_select_env example_request = Inr example_claims"
    using verifyToken_cong [of example_request example_request failing_select_env example_env]
      verify_example
    by (simp add: failing_select_env_def)
  have ff: "fails failing_select_env (length (qlog example_db) + 0)"
    by (simp add: failing_select_env_def example_env_def example_db_def)
  then have fx: "\<exists>i<3. fails failing_select_env (length (qlog example_db) + i)"
    by (intro exI [of _ 0]) simp
  have fr: "fst (get_dashboard failing_select_env example_time_key example_request example_db) =
     Inr (page (Send 500 ''Error loading dashboard.''))"
    using get_dashboard_read_model [OF fv, of example_time_key example_db] fx by blast
  have a: "\<forall>i<3. \<not> fails example_env (length (qlog example_db) + i)"
    by (simp add: example_env_def)
  have u: "filter (\<lambda>u. u_id u = 1) (users (committed example_db)) \<noteq> []"
    "filter (\<lambda>k. k_user_id k = 1) (user_streaks (committed example_db)) = []"
    by (simp_all add: example_db_def example_tables_def)
  have r: "fst (get_dashboard example_env example_time_key example_request example_db) =
     Inr (page (RenderIndex
       \<lparr>v_name = ''Ada'',
        v_scheduleItems =
          [\<lparr>s_day_of_week = Some (JStr ''Monday''), s_start_time = Some (JStr ''09:00''),
            s_end_time = Some (JStr ''10:00''), s_subject = Some (JStr ''History''),
            s_user_id = 1\<rparr>,
           \<lparr>s_day_of_week = Some (JStr ''Tuesday''), s_start_time = Some (JStr ''14:00''),
            s_end_time = Some (JStr ''15:00''), s_subject = Some (JStr ''Physics''),
            s_user_id = 1\<rparr>],
        v_focusedTime = ''N/A'', v_streak_count = 0, v_longest_streak = 0,
        v_insight = ''Planning is the first step to success!''\<rparr>))"
    by (simp add: get_dashboard_def verify_example try_catch_def bind_def
        dashboard_queries_accepted [OF a] ret_def example_claims_def)
       (simp add: example_db_def example_tables_def dashboard_view_def order_schedule_def
          day_rank_def example_time_key_def falsy_def ret_def)
  from get_dashboard_read_model [OF verify_example, of example_time_key example_db] a u
  obtain v where v: "fst (get_dashboard example_env example_time_key example_request example_db) =
      Inr (page (RenderIndex v))"
    "sorted (map (schedule_key example_time_key) (v_scheduleItems v))"
    by (auto simp: example_claims_def)
  have "sorted (map (schedule_key example_time_key)
     (case reply (projr (fst (get_dashboard example_env example_time_key example_request example_db))) of
        RenderIndex v \<Rightarrow> v_scheduleItems v | r \<Rightarrow> []))"
    using v by (simp add: page_def)
  then show ?thesis using verify_example u r ff fr by simp
qed

text \<open>
  Claim C7 as stated fails when a read is rejected: for a verified token whose user has
  no row the reply is then the 500 message, not a redirect.
\<close>

theorem get_dashboard_failed_read_counterexample:
  "verifyToken failing_select_env stranger_request = Inr stranger_claims \<and>
   filter (\<lambda>u. u_id u = jid stranger_claims) (users (committed example_db)) = [] \<and>
   fails failing_select_env 0 \<and>
   fst (get_dashboard failing_select_env example_time_key stranger_request example_db) =
     Inr \<lparr>cookies = [], reply = Send 500 ''Error loading dashboard.''\<rparr>"
  by (simp add: stranger_run stranger_verified)
     (simp add: stranger_claims_def example_db_def example_tables_def failing_select_env_def
        example_env_def page_def)

text \<open>
  Claim C8. Every \<^verbatim>\<open>DELETE\<close>, \<^verbatim>\<open>INSERT\<close> and \<^verbatim>\<open>UPDATE\<close> that POST /form sends carries the
  id of the verified token. Two requests with the same cookie, handled under the same
  secret and clock, write for that same id whatever their bodies, the model's answers,
  the database states and the rejected statements are.
\<close>

theorem post_form_user_from_token:
  assumes "cookie_token req' = cookie_token req"
    and "jwt_secret e' = jwt_secret e"
    and "now e' = now e"
    and "verifyToken e req = Inr user"
  shows "set (written_users e req d) \<subseteq> {jid user} \<and>
         set (written_users e' req' d') \<subseteq> {jid user}"
proof -
  have "verifyToken e' req' = Inr user"
    using verifyToken_cong [OF assms(1) assms(2) assms(3)] assms(4) by simp
  then show ?thesis
    using written_users_subset [OF assms(4), of d] written_users_subset [of e' req' user d']
    by simp
qed

text \<open>
  C8 for two bodies, the second of which names user 2 in fields \<^verbatim>\<open>id\<close> and \<^verbatim>\<open>user_id\<close>.
\<close>

theorem post_form_user_from_token_witness:
  "cookie_token other_body_request = cookie_token example_request \<and>
   body other_body_request ''dailytime'' \<noteq> body example_request ''dailytime'' \<and>
   body other_body_request ''user_id'' = Some ''2'' \<and>
   verifyToken example_env example_request = Inr example_claims \<and>
   written_users example_env example_request example_db = [1, 1, 1] \<and>
   written_users example_env other_body_request example_db = [1, 1, 1] \<and>
   set (written_users example_env example_request example_db) \<subseteq> {1} \<and>
   set (written_users example_env other_body_request example_db) \<subseteq> {1}"
proof -
  have t: "cookie_token other_body_request = cookie_token example_request"
    by (simp add: other_body_request_def example_request_def)
  have w: "written_users example_env example_request example_db = [1, 1, 1]"
    "written_users example_env other_body_request example_db = [1, 1, 1]"
    unfolding written_users_def example_run other_body_run
    by (simp_all add: sent_def example_db_def List.map_filter_def item_query_def)
  have b: "body other_body_request ''dailytime'' \<noteq> body example_request ''dailytime''"
    "body other_body_request ''user_id'' = Some ''2''"
    by (simp_all add: other_body_request_def example_request_def)
  show ?thesis
    using post_form_user_from_token [OF t refl refl verify_example, of example_db example_db]
      t w b verify_example
    by (simp add: example_claims_def)
qed

text \<open>
  Claim C9. POST /login and POST /register always answer, and with a redirect or the
  rendered \<^verbatim>\<open>auth.ejs\<close> page, never with \<^verbatim>\<open>res.json\<close>. The script's \<^verbatim>\<open>auth\<close>, run against
  either route, never reaches the branch that stores \<^verbatim>\<open>data.token\<close>: the response it
  ends on after following redirects is never JSON.
\<close>

theorem auth_routes_never_answer_json:
  "(\<exists>resp d'. post_login e req d = (Inr resp, d') \<and> html_or_redirect (reply resp)) \<and>
   (\<exists>resp d'. post_register e req d = (Inr resp, d') \<and> html_or_redirect (reply resp)) \<and>
   fst (auth e time_key ''/login'' jar d) \<noteq> StoreAndNavigate t \<and>
   fst (auth e time_key ''/register'' jar d) \<noteq> StoreAndNavigate t"
proof -
  have l: "\<exists>resp d'. post_login e r d = (Inr resp, d') \<and> html_or_redirect (reply resp)" for r
    using post_login_reply [of e r d] by auto
  have g: "\<exists>resp d'. post_register e r d = (Inr resp, d') \<and> html_or_redirect (reply resp)" for r
    using post_register_reply [of e r d] by auto
  have a: "fst (auth e time_key path jar d) \<noteq> StoreAndNavigate t"
    if "\<exists>resp d'. server_post e path \<lparr>cookie_token = jar, body = (\<lambda>k. None)\<rparr> d = (Inr resp, d') \<and>
          html_or_redirect (reply resp)" for path
  proof -
    from that obtain resp d' where
      p: "server_post e path \<lparr>cookie_token = jar, body = (\<lambda>k. None)\<rparr> d = (Inr resp, d')"
      and h: "html_or_redirect (reply resp)" by blast
    have nj: "reply resp \<noteq> Json j" for j using h by (cases "reply resp") auto
    have "fst (fetch_follow 20 e time_key jar resp d') \<noteq> Some (Json j)" for j
      using fetch_follow_not_json [OF nj] .
    then have "auth_then (fst (fetch_follow 20 e time_key jar resp d')) \<noteq> StoreAndNavigate t"
      by (auto simp: auth_then_def split: option.splits reply.splits)
    then show ?thesis using p by (auto simp: auth_def split: prod.splits)
  qed
  show ?thesis
    using l [of req] g [of req] a [of "''/login''"] a [of "''/register''"]
      l [of "\<lparr>cookie_token = jar, body = (\<lambda>k. None)\<rparr>"] g [of "\<lparr>cookie_token = jar, body = (\<lambda>k. None)\<rparr>"]
    by (simp add: server_post_def)
qed

text \<open>
  C9 for the script's own request: its JSON body leaves the fields undefined, the
  server renders the form with an error, and \<^verbatim>\<open>res.json()\<close> rejects.
\<close>

theorem auth_routes_never_answer_json_witness:
  "fst (post_login example_env anonymous_request example_db) =
     Inr (page (RenderAuth (Some ''Email and password are required.''))) \<and>
   fst (auth example_env example_time_key ''/login'' None example_db) = AlertError \<and>
   fst (auth example_env example_time_key ''/register'' None example_db) = AlertError \<and>
   fst (auth example_env example_time_key ''/login'' None example_db) \<noteq>
     StoreAndNavigate (JStr ''t'')"
proof -
  have l: "post_login example_env \<lparr>cookie_token = None, body = (\<lambda>k. None)\<rparr> example_db =
     (Inr (page (RenderAuth (Some ''Email and password are required.''))), example_db)"
    by (simp add: post_login_def falsy_def ret_def)
  have g: "post_register example_env \<lparr>cookie_token = None, body = (\<lambda>k. None)\<rparr> example_db =
     (Inr (page (RenderAuth (Some ''All fields are required.''))), example_db)"
    by (simp add: post_register_def falsy_def ret_def)
  have a: "fst (auth example_env example_time_key ''/login'' None example_db) = AlertError"
    "fst (auth example_env example_time_key ''/register'' None example_db) = AlertError"
    by (simp_all add: auth_def server_post_def l g page_def eval_nat_numeral auth_then_def)
  show ?thesis
    using auth_routes_never_answer_json
      [of example_env anonymous_request example_db example_time_key None "JStr ''t''"] l a
    by (simp add: anonymous_request_def)
qed

text \<open>
  Claim C10. When the cookie is present (and not the empty string) and \<^verbatim>\<open>jwt.verify\<close>
  fails, \<^verbatim>\<open>verifyToken\<close> clears the \<^verbatim>\<open>token\<close> cookie and redirects to \<^verbatim>\<open>/\<close>; when the
  cookie is absent (or the empty string, which \<^verbatim>\<open>!token\<close> treats alike) it redirects
  without touching the cookie. The three protected routes return that answer and
  leave the database state as it was.
\<close>

theorem verifyToken_clears_failed_token:
  "(\<not> no_token (cookie_token req) \<and> cookie_token req = Some tok \<and>
      isl (jwt_verify tok (jwt_secret e) (now e)) \<longrightarrow>
      verifyToken e req = Inl \<lparr>cookies = [ClearCookie ''token''], reply = Redirect ''/''\<rparr>) \<and>
   (no_token (cookie_token req) \<longrightarrow>
      verifyToken e req = Inl \<lparr>cookies = [], reply = Redirect ''/''\<rparr>) \<and>
   (\<forall>resp. verifyToken e req = Inl resp \<longrightarrow>
      get_form e req d = (Inr resp, d) \<and>
      get_dashboard e time_key req d = (Inr resp, d) \<and>
      post_form e req d = (Inr resp, d))"
  using protected_rejected [of e req _ d time_key]
  by (auto simp: verifyToken_def page_def split: sum.splits)

text \<open>
  C10 for a cookie holding \<^verbatim>\<open>garbage\<close> and for a request without cookie.
\<close>

theorem verifyToken_clears_failed_token_witness:
  "\<not> no_token (cookie_token garbage_request) \<and>
   isl (jwt_verify (Opaque ''garbage'') (jwt_secret example_env) (now example_env)) \<and>
   post_form example_env garbage_request example_db =
     (Inr \<lparr>cookies = [ClearCookie ''token''], reply = Redirect ''/''\<rparr>, example_db) \<and>
   get_form example_env garbage_request example_db =
     (Inr \<lparr>cookies = [ClearCookie ''token''], reply = Redirect ''/''\<rparr>, example_db) \<and>
   no_token (cookie_token anonymous_request) \<and>
   post_form example_env anonymous_request example_db =
     (Inr \<lparr>cookies = [], reply = Redirect ''/''\<rparr>, example_db) \<and>
   get_dashboard example_env example_time_key anonymous_request example_db =
     (Inr \<lparr>cookies = [], reply = Redirect ''/''\<rparr>, example_db)"
proof -
  have g: "\<not> no_token (cookie_token garbage_request)"
    "cookie_token garbage_request = Some (Opaque ''garbage'')"
    "isl (jwt_verify (Opaque ''garbage'') (jwt_secret example_env) (now example_env))"
    by (simp_all add: garbage_request_def no_token_def jwt_verify_def example_env_def)
  have a: "no_token (cookie_token anonymous_request)"
    by (simp add: anonymous_request_def no_token_def)
  show ?thesis
    using verifyToken_clears_failed_token
        [of garbage_request "Opaque ''garbage''" example_env example_db example_time_key]
      verifyToken_clears_failed_token
        [of anonymous_request "Opaque ''garbage''" example_env example_db example_time_key]
      g a
    by simp
qed

end
